theory Spec2Isabelle
  imports Complex_Main "HOL-Library.Word"
begin

section \<open>Tensors and the object store\<close>

text \<open>
  The element type \<open>Dtype\<close> of the C++ templates is the type variable \<open>'a\<close>. The
  definitions ask of it only the operations the code applies (\<open>0\<close>, \<open>1\<close>, \<open>+\<close>, \<open>-\<close>,
  \<open>*\<close>, \<open>/\<close>, \<open><\<close>), and the theorems only that its order is linear: the arithmetic
  stays uninterpreted, so every statement is about the values the code itself computes.
\<close>

type_synonym Shape = "nat list"

text \<open>
  Modelled from the spec: the tensor type \<open>Mat\<close> (core/mat.h, not among the sources): a
  shape descriptor \<open>size\<close>, a \<open>data\<close> buffer and a \<open>deriv\<close> buffer of the same shape.
  \<open>msize\<close> is the member \<open>size\<close>, \<open>Size\<close> the element count \<open>Size()\<close>.
\<close>

record 'a Mat =
  msize :: Shape
  data :: "'a list"
  deriv :: "'a list"

definition Size :: "'a Mat \<Rightarrow> nat" where
  "Size m = prod_list (msize m)"

text \<open>
  Modelled from the spec: the constructor \<open>Mat(size, flag)\<close>, which allocates a tensor
  of the given shape, zero-initialized. The spec does not say what the second argument
  does (the layers omit it, \<open>Solver::Train\<close> passes \<open>false\<close>), so the model keeps the
  argument and does not let it change the result.
\<close>

definition new_Mat :: "Shape \<Rightarrow> bool \<Rightarrow> ('a::zero) Mat" where
  "new_Mat sz flag =
     \<lparr>msize = sz, data = replicate (prod_list sz) 0, deriv = replicate (prod_list sz) 0\<rparr>"

text \<open>Modelled from the spec: \<open>Mat::Set(v)\<close> and \<open>Mat::Zero()\<close> fill the data buffer.\<close>

definition Set :: "'a \<Rightarrow> 'a Mat \<Rightarrow> 'a Mat" where
  "Set v m = m\<lparr>data := map (\<lambda>_. v) (data m)\<rparr>"

definition Zero :: "('a::zero) Mat \<Rightarrow> 'a Mat" where
  "Zero m = Set 0 m"

text \<open>
  A \<open>std::shared_ptr<Mat<Dtype>>\<close> is an address into the store of all tensors ever
  allocated, or null. Two pointers alias exactly when they are the same address.
  \<open>make_shared\<close> allocates at the next free address; deallocation is not modelled.
\<close>

type_synonym ptr = "nat option"

type_synonym 'a heap = "'a Mat list"

definition make_shared :: "'a Mat \<Rightarrow> 'a heap \<Rightarrow> ptr \<times> 'a heap" where
  "make_shared m h = (Some (length h), h @ [m])"

definition deref :: "'a heap \<Rightarrow> ptr \<Rightarrow> 'a Mat" where
  "deref h p = h ! the p"

definition assign :: "ptr \<Rightarrow> 'a Mat \<Rightarrow> 'a heap \<Rightarrow> 'a heap" where
  "assign p m h = h[the p := m]"

text \<open>Element access through the raw pointers \<open>p->Data()\<close> and \<open>p->DerivData()\<close>.\<close>

definition Data :: "'a heap \<Rightarrow> ptr \<Rightarrow> nat \<Rightarrow> 'a" where
  "Data h p i = data (deref h p) ! i"

definition DerivData :: "'a heap \<Rightarrow> ptr \<Rightarrow> nat \<Rightarrow> 'a" where
  "DerivData h p i = deriv (deref h p) ! i"

definition set_Data :: "ptr \<Rightarrow> nat \<Rightarrow> 'a \<Rightarrow> 'a heap \<Rightarrow> 'a heap" where
  "set_Data p i v h = assign p ((deref h p)\<lparr>data := (data (deref h p))[i := v]\<rparr>) h"

definition set_DerivData :: "ptr \<Rightarrow> nat \<Rightarrow> 'a \<Rightarrow> 'a heap \<Rightarrow> 'a heap" where
  "set_DerivData p i v h = assign p ((deref h p)\<lparr>deriv := (deriv (deref h p))[i := v]\<rparr>) h"

text \<open>\<open>std::vector::resize\<close> on a vector of shared pointers: new slots are null.\<close>

definition resize :: "nat \<Rightarrow> ptr list \<Rightarrow> ptr list" where
  "resize n ps = take n ps @ replicate (n - length ps) None"

text \<open>A pointer is live when it is the address of a tensor whose buffers match its shape.\<close>

definition live :: "'a heap \<Rightarrow> ptr \<Rightarrow> bool" where
  "live h p =
     (case p of None \<Rightarrow> False
      | Some a \<Rightarrow> a < length h \<and> length (data (h ! a)) = Size (h ! a)
                  \<and> length (deriv (h ! a)) = Size (h ! a))"

section \<open>Layers\<close>

text \<open>
  Modelled from the spec: the base class \<open>Layer\<close> (core/layer.h, not among the sources): a
  name, the input tensors it refers to and the output tensors it owns (the members
  \<open>in_\<close> and \<open>out_\<close>). Its constructor \<open>Parent(name, in)\<close> stores the name and the inputs.
  \<open>State\<close> carries the phase; only \<open>PHASE_TRAIN\<close> is named by the sources.
\<close>

record Layer =
  name :: string
  ins :: "ptr list"
  outs :: "ptr list"

definition Parent :: "string \<Rightarrow> ptr list \<Rightarrow> Layer" where
  "Parent nm inp = \<lparr>name = nm, ins = inp, outs = []\<rparr>"

datatype Phase = PHASE_TRAIN | PHASE_other nat

record State =
  phase :: Phase

text \<open>
  Modelled from the spec: \<open>Check(condition, message)\<close> (declared in core/log.h) terminates
  the process when the condition is false. Termination is the error value of a
  constructor's result.
\<close>

datatype error = Check_failed string

definition Check :: "bool \<Rightarrow> string \<Rightarrow> error + unit" where
  "Check c msg = (if c then Inr () else Inl (Check_failed msg))"

subsection \<open>LayerEltwiseMult (core/layer\_eltwise\_mult.h)\<close>

definition LayerEltwiseMult :: "string \<Rightarrow> ptr list \<Rightarrow> ('a::zero) heap \<Rightarrow> error + Layer \<times> 'a heap" where
  "LayerEltwiseMult nm inp h =
     (let L = Parent nm inp in
      case Check (length (ins L) = 2) ''Layer '%s' must have 2 inputs'' of
        Inl e \<Rightarrow> Inl e
      | Inr _ \<Rightarrow>
         (case Check (Size (deref h (ins L ! 0)) = Size (deref h (ins L ! 1)))
                 ''Layer '%s' inputs must have the same size'' of
            Inl e \<Rightarrow> Inl e
          | Inr _ \<Rightarrow>
             (let (p, h') = make_shared (new_Mat (msize (deref h (ins L ! 0))) True) h
              in Inr (L\<lparr>outs := (resize 1 (outs L))[0 := p]\<rparr>, h'))))"

definition LayerEltwiseMult_Forward :: "State \<Rightarrow> Layer \<Rightarrow> ('a::times) heap \<Rightarrow> 'a heap" where
  "LayerEltwiseMult_Forward state L h =
     fold (\<lambda>i h. set_Data (outs L ! 0) i (Data h (ins L ! 0) i * Data h (ins L ! 1) i) h)
          [0..<Size (deref h (outs L ! 0))] h"

definition LayerEltwiseMult_Backward :: "State \<Rightarrow> Layer \<Rightarrow> ('a::{plus,times}) heap \<Rightarrow> 'a heap" where
  "LayerEltwiseMult_Backward state L h =
     fold (\<lambda>i h.
             let dv = DerivData h (outs L ! 0) i;
                 h1 = set_DerivData (ins L ! 0) i (DerivData h (ins L ! 0) i + Data h (ins L ! 1) i * dv) h
             in set_DerivData (ins L ! 1) i (DerivData h1 (ins L ! 1) i + Data h1 (ins L ! 0) i * dv) h1)
          [0..<Size (deref h (outs L ! 0))] h"

text \<open>
  What the constructor establishes, and what \<open>Forward\<close> and \<open>Backward\<close> rely on when they
  index the buffers: two live inputs (possibly the same tensor) of equal element count,
  and one live output of that count which is neither input.
\<close>

definition LayerEltwiseMult_ok :: "Layer \<Rightarrow> 'a heap \<Rightarrow> bool" where
  "LayerEltwiseMult_ok L h \<longleftrightarrow>
     length (ins L) = 2 \<and> length (outs L) = 1 \<and>
     live h (ins L ! 0) \<and> live h (ins L ! 1) \<and> live h (outs L ! 0) \<and>
     outs L ! 0 \<noteq> ins L ! 0 \<and> outs L ! 0 \<noteq> ins L ! 1 \<and>
     Size (deref h (ins L ! 0)) = Size (deref h (outs L ! 0)) \<and>
     Size (deref h (ins L ! 1)) = Size (deref h (outs L ! 0))"

subsection \<open>LayerDropout (core/layer\_dropout.h)\<close>

record 'a LayerDropout = Layer +
  drop_prob :: 'a
  mask :: ptr

text \<open>
  Modelled from the spec: the configuration source \<open>Param\<close> is a key-value lookup
  supplying named scalar hyperparameters; \<open>param.Get("drop_prob", &drop_prob_)\<close> reads one.
\<close>

definition LayerDropout ::
  "string \<Rightarrow> ptr list \<Rightarrow> (string \<Rightarrow> 'a) \<Rightarrow> ('a::zero) heap \<Rightarrow> error + 'a LayerDropout \<times> 'a heap" where
  "LayerDropout nm inp param h =
     (let L = Parent nm inp in
      case Check (length (ins L) = 1) ''Layer '%s' must have 1 input'' of
        Inl e \<Rightarrow> Inl e
      | Inr _ \<Rightarrow>
         (let dp = param ''drop_prob'';
              (m, h1) = make_shared (new_Mat (msize (deref h (ins L ! 0))) True) h;
              (p, h2) = make_shared (new_Mat (msize (deref h1 (ins L ! 0))) True) h1
          in Inr (\<lparr>name = name L, ins = ins L, outs = (resize 1 (outs L))[0 := p],
                   drop_prob = dp, mask = m\<rparr>, h2)))"

text \<open>
  \<open>epsilon\<close> is \<open>std::numeric_limits<Dtype>::epsilon()\<close>, a parameter. \<open>draw i\<close> is the
  value the \<open>i\<close>-th call of \<open>dist(gen)\<close> returns: the loop draws once per element, in
  order, so the draws of one call of \<open>Forward\<close> are a function of the element index.
\<close>

definition LayerDropout_Forward ::
  "'a \<Rightarrow> (nat \<Rightarrow> 'a) \<Rightarrow> State \<Rightarrow> ('a::{zero,one,minus,times,inverse,ord}) LayerDropout
     \<Rightarrow> 'a heap \<Rightarrow> 'a heap" where
  "LayerDropout_Forward epsilon draw state L h =
     (if phase state \<noteq> PHASE_TRAIN then
        assign (outs L ! 0) ((deref h (outs L ! 0))\<lparr>data := data (deref h (ins L ! 0))\<rparr>) h
      else if drop_prob L < epsilon then
        (let h1 = assign (outs L ! 0) ((deref h (outs L ! 0))\<lparr>data := data (deref h (ins L ! 0))\<rparr>) h
         in assign (mask L) (Set 1 (deref h1 (mask L))) h1)
      else if drop_prob L > 1 - epsilon then
        (let h1 = assign (outs L ! 0) (Zero (deref h (outs L ! 0))) h
         in assign (mask L) (Zero (deref h1 (mask L))) h1)
      else
        (let scale = 1 / (1 - drop_prob L);
             h1 = fold (\<lambda>i h. set_Data (mask L) i (if draw i < drop_prob L then 0 else scale) h)
                       [0..<Size (deref h (mask L))] h
         in fold (\<lambda>i h. set_Data (outs L ! 0) i (Data h (mask L) i * Data h (ins L ! 0) i) h)
                 [0..<Size (deref h1 (outs L ! 0))] h1))"

definition LayerDropout_Backward ::
  "State \<Rightarrow> ('a::{plus,times}) LayerDropout \<Rightarrow> 'a heap \<Rightarrow> 'a heap" where
  "LayerDropout_Backward state L h =
     fold (\<lambda>i h.
             let dv = DerivData h (outs L ! 0) i;
                 h1 = set_DerivData (ins L ! 0) i (DerivData h (ins L ! 0) i + Data h (mask L) i * dv) h
             in set_DerivData (mask L) i (DerivData h1 (mask L) i + Data h1 (ins L ! 0) i * dv) h1)
          [0..<Size (deref h (outs L ! 0))] h"

text \<open>
  What the constructor establishes: one live input, and a mask and an output of the
  input's element count, both allocated by the layer and so distinct from the input
  and from each other.
\<close>

definition LayerDropout_ok :: "'a LayerDropout \<Rightarrow> 'a heap \<Rightarrow> bool" where
  "LayerDropout_ok L h \<longleftrightarrow>
     length (ins L) = 1 \<and> length (outs L) = 1 \<and>
     live h (ins L ! 0) \<and> live h (outs L ! 0) \<and> live h (mask L) \<and>
     outs L ! 0 \<noteq> ins L ! 0 \<and> mask L \<noteq> ins L ! 0 \<and> mask L \<noteq> outs L ! 0 \<and>
     Size (deref h (outs L ! 0)) = Size (deref h (ins L ! 0)) \<and>
     Size (deref h (mask L)) = Size (deref h (ins L ! 0))"

section \<open>Solver (core/solver.h)\<close>

text \<open>
  Modelled from the spec: the reporting subsystem and the model are external
  collaborators. \<open>Report(level, format, args)\<close> (declared in core/log.h) emits a report;
  a report is an event of the trace of a call, with its level, its format string and
  its arguments. Every call \<open>Train\<close> makes on the model (\<open>GetWeight\<close>, \<open>Train\<close>, \<open>Test\<close>,
  \<open>Name\<close>, \<open>Save\<close>) and on its own pure virtual \<open>Learn\<close> is an event too.
\<close>

datatype LogLevel = kInfo | kWarning | kError

text \<open>
  The implementation of \<open>Report\<close> is not among the sources. Its declaration in
  core/log.h documents the levels: \<open>kInfo\<close> is information, \<open>kWarning\<close> a warning, and
  \<open>kError\<close> an error that "will terminate the process". So a report returns to its
  caller unless its level is \<open>kError\<close>. The reports inside the loop of \<open>Train\<close> are at
  level \<open>kInfo\<close> and return.
\<close>

definition Report_returns :: "LogLevel \<Rightarrow> bool" where
  "Report_returns level \<longleftrightarrow> level \<noteq> kError"

text \<open>How a call ends: it returns a flag, or the process terminates inside it.\<close>

datatype outcome = Returned bool | Terminated

datatype 'a arg = U "32 word" | D 'a

datatype 'a event =
    Report LogLevel string "'a arg list"
  | Called_GetWeight
  | Called_Train
  | Called_Learn 'a
  | Called_Test
  | Called_Name
  | Called_Save string

text \<open>
  The model is a state of type \<open>'m\<close> together with the tensors of the store; its
  operations, and the solver's \<open>Learn\<close> (const: it reads the solver and may change the
  model and the tensors), are parameters.
\<close>

record ('m, 'a) Env =
  Model_GetWeight :: "'m \<Rightarrow> ptr list \<Rightarrow> ptr list"
  Model_Train :: "'m \<Rightarrow> 'a heap \<Rightarrow> 'a \<times> 'm \<times> 'a heap"
  Model_Test :: "'m \<Rightarrow> 'a heap \<Rightarrow> 'a \<times> 'm \<times> 'a heap"
  Model_Name :: "'m \<Rightarrow> string"
  Model_Save :: "string \<Rightarrow> 'm \<Rightarrow> 'a heap \<Rightarrow> bool \<times> 'm \<times> 'a heap"

record 'a Solver =
  weight :: "ptr list"
  weight_prev :: "ptr list"
  print_each :: "32 word"
  test_each :: "32 word"
  save_each :: "32 word"
  lr_scale_each :: "32 word"
  lr_scale :: 'a

definition Solver :: "32 word \<Rightarrow> 32 word \<Rightarrow> 32 word \<Rightarrow> 32 word \<Rightarrow> 'a \<Rightarrow> 'a Solver" where
  "Solver pe te se le sc =
     \<lparr>weight = [], weight_prev = [], print_each = pe, test_each = te, save_each = se,
      lr_scale_each = le, lr_scale = sc\<rparr>"

text \<open>The solver, the object the \<open>model\<close> argument points to (\<open>None\<close>: null), the tensors.\<close>

record ('m, 'a) Machine =
  solver :: "'a Solver"
  model :: "'m option"
  store :: "'a heap"

text \<open>The locals of \<open>Train\<close> inside the loop, with the model, the tensors and the trace.\<close>

record ('m, 'a) Frame =
  f_model :: 'm
  f_store :: "'a heap"
  f_log :: "'a event list"
  learning_rate :: 'a
  print :: "32 word"
  test :: "32 word"
  save :: "32 word"
  lr :: "32 word"

record ('m, 'a) Result =
  ret :: outcome
  after :: "('m, 'a) Machine"
  trace :: "'a event list"

definition print_fmt :: string where
  "print_fmt = ''Step %ld: lr = %f, loss = %f''"

definition test_fmt :: string where
  "test_fmt = ''Step %ld: accuracy = %f''"

definition lr_fmt :: string where
  "lr_fmt = ''Step %ld: Update learning rate from %f to %f, scale %f''"

text \<open>\<open>std::to_string\<close> on an unsigned value: its decimal digits.\<close>

fun to_string :: "nat \<Rightarrow> string" where
  "to_string n =
     (if n < 10 then [''0123456789'' ! n]
      else to_string (n div 10) @ [''0123456789'' ! (n mod 10)])"

declare to_string.simps [simp del]

text \<open>Lines 114-120: the snapshot setup.\<close>

definition Train_setup :: "('m, 'a) Env \<Rightarrow> 'm \<Rightarrow> ('a::zero) Solver \<Rightarrow> 'a heap \<Rightarrow> 'a Solver \<times> 'a heap" where
  "Train_setup E m S h =
     (let S1 = S\<lparr>weight := []\<rparr>;
          S2 = S1\<lparr>weight := Model_GetWeight E m (weight S1)\<rparr>;
          S3 = S2\<lparr>weight_prev := resize (length (weight S2)) (weight_prev S2)\<rparr>
      in fold (\<lambda>i (S, h).
                 let (p, h') = make_shared (new_Mat (msize (deref h (weight S ! i))) False) h
                 in (S\<lparr>weight_prev := (weight_prev S)[i := p]\<rparr>, h'))
              [0..<length (weight S3)] (S3, h))"

text \<open>Lines 130-134, 136-140, 142-149 and 151-156: the four counters of one step.\<close>

definition Train_print :: "'a Solver \<Rightarrow> 32 word \<Rightarrow> 32 word \<Rightarrow> 'a \<Rightarrow> ('m, 'a) Frame \<Rightarrow> ('m, 'a) Frame" where
  "Train_print S num_step step loss f =
     (let f1 = f\<lparr>print := print f + 1\<rparr> in
      if print f1 \<ge> print_each S \<or> step = num_step - 1 then
        f1\<lparr>f_log := f_log f1 @ [Report kInfo print_fmt [U (step + 1), D (learning_rate f1), D loss]],
           print := 0\<rparr>
      else f1)"

definition Train_test :: "('m, 'a) Env \<Rightarrow> 'a Solver \<Rightarrow> 32 word \<Rightarrow> 32 word \<Rightarrow> ('m, 'a) Frame \<Rightarrow> ('m, 'a) Frame" where
  "Train_test E S num_step step f =
     (let f1 = f\<lparr>test := test f + 1\<rparr> in
      if test f1 \<ge> test_each S \<or> step = num_step - 1 then
        (let (accuracy, m, h) = Model_Test E (f_model f1) (f_store f1)
         in f1\<lparr>f_model := m, f_store := h,
                f_log := f_log f1 @ [Called_Test, Report kInfo test_fmt [U (step + 1), D accuracy]],
                test := 0\<rparr>)
      else f1)"

definition Train_save :: "('m, 'a) Env \<Rightarrow> 'a Solver \<Rightarrow> 32 word \<Rightarrow> 32 word \<Rightarrow> ('m, 'a) Frame \<Rightarrow> bool \<times> ('m, 'a) Frame" where
  "Train_save E S num_step step f =
     (let f1 = f\<lparr>save := save f + 1\<rparr> in
      if save f1 \<ge> save_each S \<or> step = num_step - 1 then
        (let file_name = Model_Name E (f_model f1) @ ''_'' @ to_string (unat (step + 1)) @ ''.model'';
             (ok, m, h) = Model_Save E file_name (f_model f1) (f_store f1);
             f2 = f1\<lparr>f_model := m, f_store := h,
                      f_log := f_log f1 @ [Called_Name, Called_Save file_name]\<rparr>
         in if \<not> ok then (False, f2) else (True, f2\<lparr>save := 0\<rparr>))
      else (True, f1))"

definition Train_lr :: "('a::times) Solver \<Rightarrow> 32 word \<Rightarrow> ('m, 'a) Frame \<Rightarrow> ('m, 'a) Frame" where
  "Train_lr S step f =
     (let f1 = f\<lparr>lr := lr f + 1\<rparr> in
      if lr f1 \<ge> lr_scale_each S then
        f1\<lparr>f_log := f_log f1 @ [Report kInfo lr_fmt
                      [U (step + 1), D (learning_rate f1), D (learning_rate f1 * lr_scale S),
                       D (lr_scale S)]],
           learning_rate := learning_rate f1 * lr_scale S,
           lr := 0\<rparr>
      else f1)"

text \<open>
  Lines 127-156: one iteration of the loop. The result is \<open>False\<close> with the frame at
  that point when the checkpoint save fails (the \<open>return false\<close> of line 146).
\<close>

definition Train_step ::
  "('m, 'a) Env \<Rightarrow> ('a Solver \<Rightarrow> 'm \<Rightarrow> 'a heap \<Rightarrow> 'a \<Rightarrow> 'm \<times> 'a heap) \<Rightarrow> ('a::times) Solver
     \<Rightarrow> 32 word \<Rightarrow> 32 word \<Rightarrow> ('m, 'a) Frame \<Rightarrow> bool \<times> ('m, 'a) Frame" where
  "Train_step E Learn S num_step step f =
     (let (loss, m1, h1) = Model_Train E (f_model f) (f_store f);
          (m2, h2) = Learn S m1 h1 (learning_rate f);
          f1 = f\<lparr>f_model := m2, f_store := h2,
                 f_log := f_log f @ [Called_Train, Called_Learn (learning_rate f)]\<rparr>;
          f2 = Train_print S num_step step loss f1;
          f3 = Train_test E S num_step step f2;
          (ok, f4) = Train_save E S num_step step f3
      in if \<not> ok then (False, f4) else (True, Train_lr S step f4))"

function Train_loop ::
  "('m, 'a) Env \<Rightarrow> ('a Solver \<Rightarrow> 'm \<Rightarrow> 'a heap \<Rightarrow> 'a \<Rightarrow> 'm \<times> 'a heap) \<Rightarrow> ('a::times) Solver
     \<Rightarrow> 32 word \<Rightarrow> 32 word \<Rightarrow> ('m, 'a) Frame \<Rightarrow> bool \<times> ('m, 'a) Frame" where
  "Train_loop E Learn S num_step step f =
     (if step < num_step then
        (case Train_step E Learn S num_step step f of
           (False, f') \<Rightarrow> (False, f')
         | (True, f') \<Rightarrow> Train_loop E Learn S num_step (step + 1) f')
      else (True, f))"
  by pat_completeness auto
termination
  apply (relation "measure (\<lambda>(E, Learn, S, num_step, step, f). unat num_step - unat step)")
  subgoal by simp
  subgoal premises prems for E Learn S num_step step f ok f'
  proof -
    have less: "unat step < unat num_step"
      using prems(1) by (simp add: word_less_nat_alt)
    moreover have "unat num_step < 2 ^ 32"
      using unsigned_less [of num_step] by simp
    ultimately have "unat step + 1 < 2 ^ 32"
      by linarith
    then have "unat (step + 1) = Suc (unat step)"
      by (simp add: unat_word_ariths)
    with less show ?thesis
      by simp
  qed
  done

declare Train_loop.simps [simp del]

text \<open>
  \<open>Solver::Train\<close>. The second argument is the pure virtual \<open>Learn\<close> of the concrete
  solver. The machine holds the solver, the model the pointer argument refers to and
  the tensors; the result holds how the call ends, the machine at that point and the
  trace of the call. With a null model the error report of line 110 is made at level
  \<open>kError\<close>, and the \<open>return false\<close> of line 111 is reached only if that report returns.
\<close>

definition Train ::
  "('m, 'a) Env \<Rightarrow> ('a Solver \<Rightarrow> 'm \<Rightarrow> 'a heap \<Rightarrow> 'a \<Rightarrow> 'm \<times> 'a heap) \<Rightarrow> 32 word \<Rightarrow> 'a
     \<Rightarrow> ('m, 'a::{zero,times}) Machine \<Rightarrow> ('m, 'a) Result" where
  "Train E Learn num_step lrate M =
     (case model M of
        None \<Rightarrow>
          \<lparr>ret = (if Report_returns kError then Returned False else Terminated),
           after = M, trace = [Report kError ''Invalid model'' []]\<rparr>
      | Some m \<Rightarrow>
         (let (S1, h1) = Train_setup E m (solver M) (store M);
              f0 = \<lparr>f_model = m, f_store = h1, f_log = [Called_GetWeight], learning_rate = lrate,
                    print = 0, test = 0, save = 0, lr = 0\<rparr>;
              (ok, f) = Train_loop E Learn S1 num_step 0 f0
          in if \<not> ok then
               \<lparr>ret = Returned False,
                after = \<lparr>solver = S1, model = Some (f_model f), store = f_store f\<rparr>,
                trace = f_log f\<rparr>
             else
               \<lparr>ret = Returned True,
                after = \<lparr>solver = S1\<lparr>weight := [], weight_prev := []\<rparr>,
                         model = Some (f_model f), store = f_store f\<rparr>,
                trace = f_log f\<rparr>))"

text \<open>
  What a trace shows of the schedule: \<open>report_steps fmt\<close> lists, in order, the step
  numbers printed by the reports of format \<open>fmt\<close> (their first argument, \<open>step + 1\<close>).
  \<open>steps num_step\<close> are the step indices \<open>0, \<dots>, num_step - 1\<close>; \<open>cadence_or_final\<close> and
  \<open>cadence_only\<close> list the numbers \<open>step + 1\<close> of the indices at which
  \<open>(step + 1) % cadence == 0\<close>, with and without the final step.
\<close>

fun report_steps :: "string \<Rightarrow> 'a event list \<Rightarrow> 32 word list" where
  "report_steps fmt [] = []"
| "report_steps fmt (Report level f (U n # args) # es) =
     (if f = fmt then n # report_steps fmt es else report_steps fmt es)"
| "report_steps fmt (e # es) = report_steps fmt es"

definition steps :: "32 word \<Rightarrow> 32 word list" where
  "steps num_step = map of_nat [0..<unat num_step]"

definition cadence_or_final :: "32 word \<Rightarrow> 32 word \<Rightarrow> 32 word list" where
  "cadence_or_final cadence num_step =
     map (\<lambda>step. step + 1)
       (filter (\<lambda>step. (step + 1) mod cadence = 0 \<or> step = num_step - 1) (steps num_step))"

definition cadence_only :: "32 word \<Rightarrow> 32 word \<Rightarrow> 32 word list" where
  "cadence_only cadence num_step =
     map (\<lambda>step. step + 1) (filter (\<lambda>step. (step + 1) mod cadence = 0) (steps num_step))"

section \<open>The schedule by step index\<close>

text \<open>
  The schedule in the words of the specification, to compare the counters of the code
  with: an action with a cadence and the final-step exception fires at the step indices
  where \<open>(step + 1) % cadence == 0\<close> or \<open>step == num_step - 1\<close>, and the learning rate
  decays at those where \<open>(step + 1) % cadence == 0\<close>.
\<close>

definition fires :: "32 word \<Rightarrow> 32 word \<Rightarrow> 32 word \<Rightarrow> bool" where
  "fires cadence num_step step \<longleftrightarrow> (step + 1) mod cadence = 0 \<or> step = num_step - 1"

definition decays :: "32 word \<Rightarrow> 32 word \<Rightarrow> bool" where
  "decays cadence step \<longleftrightarrow> (step + 1) mod cadence = 0"

text \<open>
  A training run that keeps no counters and decides every action from the step index
  alone. It is not taken from the code: it is what the specification says \<open>Train\<close> does
  in a step, with the same calls in the same order, and \<open>Train\<close> is compared with it.
  Its state is the model, the tensors, the trace and the learning rate.
\<close>

record ('m, 'a) Run =
  r_model :: 'm
  r_store :: "'a heap"
  r_log :: "'a event list"
  r_rate :: 'a

definition run_of :: "('m, 'a) Frame \<Rightarrow> ('m, 'a) Run" where
  "run_of f = \<lparr>r_model = f_model f, r_store = f_store f, r_log = f_log f, r_rate = learning_rate f\<rparr>"

definition print_by_index :: "'a Solver \<Rightarrow> 32 word \<Rightarrow> 32 word \<Rightarrow> 'a \<Rightarrow> ('m, 'a) Run \<Rightarrow> ('m, 'a) Run" where
  "print_by_index S num_step step loss r =
     (if fires (print_each S) num_step step then
        r\<lparr>r_log := r_log r @ [Report kInfo print_fmt [U (step + 1), D (r_rate r), D loss]]\<rparr>
      else r)"

definition test_by_index :: "('m, 'a) Env \<Rightarrow> 'a Solver \<Rightarrow> 32 word \<Rightarrow> 32 word \<Rightarrow> ('m, 'a) Run \<Rightarrow> ('m, 'a) Run" where
  "test_by_index E S num_step step r =
     (if fires (test_each S) num_step step then
        (let (accuracy, m, h) = Model_Test E (r_model r) (r_store r)
         in r\<lparr>r_model := m, r_store := h,
               r_log := r_log r @ [Called_Test, Report kInfo test_fmt [U (step + 1), D accuracy]]\<rparr>)
      else r)"

definition save_by_index :: "('m, 'a) Env \<Rightarrow> 'a Solver \<Rightarrow> 32 word \<Rightarrow> 32 word \<Rightarrow> ('m, 'a) Run \<Rightarrow> bool \<times> ('m, 'a) Run" where
  "save_by_index E S num_step step r =
     (if fires (save_each S) num_step step then
        (let file_name = Model_Name E (r_model r) @ ''_'' @ to_string (unat (step + 1)) @ ''.model'';
             (ok, m, h) = Model_Save E file_name (r_model r) (r_store r)
         in (ok, r\<lparr>r_model := m, r_store := h,
                     r_log := r_log r @ [Called_Name, Called_Save file_name]\<rparr>))
      else (True, r))"

definition decay_by_index :: "('a::times) Solver \<Rightarrow> 32 word \<Rightarrow> ('m, 'a) Run \<Rightarrow> ('m, 'a) Run" where
  "decay_by_index S step r =
     (if decays (lr_scale_each S) step then
        r\<lparr>r_log := r_log r @ [Report kInfo lr_fmt
                     [U (step + 1), D (r_rate r), D (r_rate r * lr_scale S), D (lr_scale S)]],
          r_rate := r_rate r * lr_scale S\<rparr>
      else r)"

text \<open>One step: train, learn, print, test, save (a failed save ends the run), decay.\<close>

definition step_by_index ::
  "('m, 'a) Env \<Rightarrow> ('a Solver \<Rightarrow> 'm \<Rightarrow> 'a heap \<Rightarrow> 'a \<Rightarrow> 'm \<times> 'a heap) \<Rightarrow> ('a::times) Solver
     \<Rightarrow> 32 word \<Rightarrow> 32 word \<Rightarrow> ('m, 'a) Run \<Rightarrow> bool \<times> ('m, 'a) Run" where
  "step_by_index E Learn S num_step step r =
     (let (loss, m1, h1) = Model_Train E (r_model r) (r_store r);
          (m2, h2) = Learn S m1 h1 (r_rate r);
          r1 = r\<lparr>r_model := m2, r_store := h2,
                 r_log := r_log r @ [Called_Train, Called_Learn (r_rate r)]\<rparr>;
          (ok, r2) = save_by_index E S num_step step
                       (test_by_index E S num_step step (print_by_index S num_step step loss r1))
      in if ok then (True, decay_by_index S step r2) else (False, r2))"

fun run_by_index ::
  "('m, 'a) Env \<Rightarrow> ('a Solver \<Rightarrow> 'm \<Rightarrow> 'a heap \<Rightarrow> 'a \<Rightarrow> 'm \<times> 'a heap) \<Rightarrow> ('a::times) Solver
     \<Rightarrow> 32 word \<Rightarrow> 32 word list \<Rightarrow> ('m, 'a) Run \<Rightarrow> bool \<times> ('m, 'a) Run" where
  "run_by_index E Learn S num_step [] r = (True, r)"
| "run_by_index E Learn S num_step (step # rest) r =
     (case step_by_index E Learn S num_step step r of
        (False, r') \<Rightarrow> (False, r')
      | (True, r') \<Rightarrow> run_by_index E Learn S num_step rest r')"

text \<open>
  What a trace shows of a run: \<open>steps_reached\<close> counts the steps it began (each calls
  the model's \<open>Train\<close> once) and \<open>tests_made\<close> the calls of the model's \<open>Test\<close>.
  What it shows of the learning rate: \<open>learn_rates\<close> lists the rates \<open>Learn\<close> was
  called with, one per step. \<open>rates_by_index\<close> lists the rates of the given steps when
  the first one runs at \<open>rate\<close> and every step that decays multiplies the rate of the
  following ones by \<open>scale\<close>.
\<close>

definition steps_reached :: "'a event list \<Rightarrow> nat" where
  "steps_reached tr = count_list tr Called_Train"

definition tests_made :: "'a event list \<Rightarrow> nat" where
  "tests_made tr = count_list tr Called_Test"

fun learn_rates :: "'a event list \<Rightarrow> 'a list" where
  "learn_rates [] = []"
| "learn_rates (Called_Learn rate # es) = rate # learn_rates es"
| "learn_rates (e # es) = learn_rates es"

fun rates_by_index :: "32 word \<Rightarrow> ('a::times) \<Rightarrow> 'a \<Rightarrow> 32 word list \<Rightarrow> 'a list" where
  "rates_by_index cadence scale rate [] = []"
| "rates_by_index cadence scale rate (step # rest) =
     rate # rates_by_index cadence scale (if decays cadence step then rate * scale else rate) rest"

section \<open>A concrete model and solver\<close>

text \<open>
  A model with one weight tensor, whose training step and test return 1 and whose
  \<open>Save\<close> returns the given flag, and a solver whose \<open>Learn\<close> does nothing.
\<close>

definition stub_env :: "bool \<Rightarrow> (unit, real) Env" where
  "stub_env save_ok =
     \<lparr>Model_GetWeight = (\<lambda>m ws. ws @ [Some 0]),
      Model_Train = (\<lambda>m h. (1, m, h)),
      Model_Test = (\<lambda>m h. (1, m, h)),
      Model_Name = (\<lambda>m. ''net''),
      Model_Save = (\<lambda>file_name m h. (save_ok, m, h))\<rparr>"

definition stub_Learn :: "real Solver \<Rightarrow> unit \<Rightarrow> real heap \<Rightarrow> real \<Rightarrow> unit \<times> real heap" where
  "stub_Learn S m h lrate = (m, h)"

definition stub_store :: "real heap" where
  "stub_store = [\<lparr>msize = [2], data = [1, 2], deriv = [0, 0]\<rparr>]"

definition stub_machine :: "real Solver \<Rightarrow> unit option \<Rightarrow> (unit, real) Machine" where
  "stub_machine S m = \<lparr>solver = S, model = m, store = stub_store\<rparr>"

text \<open>The machine a run aborted by a failed save leaves behind, and then a null model.\<close>

definition stale_machine :: "(unit, real) Machine" where
  "stale_machine =
     (after (Train (stub_env False) stub_Learn 1 1 (stub_machine (Solver 1 1 1 1 (1 / 2)) (Some ()))))
       \<lparr>model := None\<rparr>"

section \<open>Concrete layers and tensors\<close>

text \<open>
  The scenarios of the specification, on real numbers: the product of \<open>[2, 3]\<close> and
  \<open>[5, 7]\<close>, the same layer with one tensor as both inputs, and a dropout layer on
  \<open>[1, 2, 3, 4]\<close> whose draws keep elements 0 and 2 at drop probability \<open>1/2\<close>.
  \<open>float_epsilon\<close> is the machine epsilon of \<open>float\<close>.
\<close>

definition train_state :: State where
  "train_state = \<lparr>phase = PHASE_TRAIN\<rparr>"

definition test_state :: State where
  "test_state = \<lparr>phase = PHASE_other 0\<rparr>"

definition eltwise_heap :: "real heap" where
  "eltwise_heap =
     [\<lparr>msize = [2], data = [2, 3], deriv = [0, 0]\<rparr>,
      \<lparr>msize = [2], data = [5, 7], deriv = [0, 0]\<rparr>,
      \<lparr>msize = [2], data = [0, 0], deriv = [1, 1]\<rparr>]"

definition eltwise_layer :: Layer where
  "eltwise_layer = \<lparr>name = ''mult'', ins = [Some 0, Some 1], outs = [Some 2]\<rparr>"

definition square_layer :: Layer where
  "square_layer = \<lparr>name = ''square'', ins = [Some 0, Some 0], outs = [Some 2]\<rparr>"

definition float_epsilon :: real where
  "float_epsilon = 1 / 2 ^ 23"

definition dropout_heap :: "real heap" where
  "dropout_heap =
     [\<lparr>msize = [4], data = [1, 2, 3, 4], deriv = [0, 0, 0, 0]\<rparr>,
      \<lparr>msize = [4], data = [2, 0, 2, 0], deriv = [0, 0, 0, 0]\<rparr>,
      \<lparr>msize = [4], data = [9, 9, 9, 9], deriv = [1, 1, 1, 1]\<rparr>]"

definition dropout_layer :: "real \<Rightarrow> real LayerDropout" where
  "dropout_layer p = \<lparr>name = ''drop'', ins = [Some 0], outs = [Some 2], drop_prob = p, mask = Some 1\<rparr>"

definition dropout_draw :: "nat \<Rightarrow> real" where
  "dropout_draw i = (if even i then 3 / 4 else 1 / 4)"

section \<open>Properties of the store\<close>

lemma Data_Some: "Data h (Some a) i = data (h ! a) ! i"
  by (simp add: Data_def deref_def)

lemma DerivData_Some: "DerivData h (Some a) i = deriv (h ! a) ! i"
  by (simp add: DerivData_def deref_def)

lemma set_Data_Some: "set_Data (Some a) i v h = h[a := (h ! a)\<lparr>data := (data (h ! a))[i := v]\<rparr>]"
  by (simp add: set_Data_def deref_def assign_def)

lemma set_DerivData_Some:
  "set_DerivData (Some a) i v h = h[a := (h ! a)\<lparr>deriv := (deriv (h ! a))[i := v]\<rparr>]"
  by (simp add: set_DerivData_def deref_def assign_def)

lemma written_prefix_nth: "n < length d \<Longrightarrow> (map f [0..<n] @ drop n d) ! n = d ! n"
  by (simp add: nth_append)

lemma written_prefix_upd:
  "n < length d \<Longrightarrow> (map f [0..<n] @ drop n d)[n := v] = map f [0..<n] @ v # drop (Suc n) d"
  by (simp add: list_update_append upd_conv_take_nth_drop)

lemma written_prefix_Suc:
  "n < length d \<Longrightarrow> (map f [0..<n] @ drop n d)[n := f n] = map f [0..<Suc n] @ drop (Suc n) d"
  by (simp add: written_prefix_upd)

text \<open>A loop that writes one element of one data buffer per iteration.\<close>

lemma fold_set_Data:
  assumes "a < length h" and "n \<le> length (data (h ! a))"
    and "\<And>i D. i < n \<Longrightarrow> g i (h[a := (h ! a)\<lparr>data := D\<rparr>]) = f i"
  shows "fold (\<lambda>i h. set_Data (Some a) i (g i h) h) [0..<n] h
         = h[a := (h ! a)\<lparr>data := map f [0..<n] @ drop n (data (h ! a))\<rparr>]"
  using assms
proof (induction n)
  case 0
  then show ?case by (simp add: list_update_same_conv)
next
  case (Suc n)
  have "n < length (data (h ! a))" using Suc.prems by simp
  then show ?case using Suc
    by (simp add: set_Data_Some written_prefix_Suc del: upt_Suc map_append add: upt_Suc_append)
qed

lemma fold_upt_Suc: "fold f [0..<Suc n] h = f n (fold f [0..<n] h)"
  by simp

lemma written_cons_nth: "(map f [0..<n] @ v # r) ! n = v"
  by (simp add: nth_append)

lemma written_cons_upd: "(map f [0..<n] @ v # r)[n := w] = map f [0..<n] @ w # r"
  by (simp add: list_update_append)

lemma fold_mult_backward_distinct:
  fixes h :: "('a::{plus,times}) heap"
  assumes "a < length h" "b < length h" "a \<noteq> b" "c \<noteq> a" "c \<noteq> b"
    and "n \<le> length (deriv (h ! a))" "n \<le> length (deriv (h ! b))"
  shows "fold (\<lambda>i h.
             let dv = DerivData h (Some c) i;
                 h1 = set_DerivData (Some a) i (DerivData h (Some a) i + Data h (Some b) i * dv) h
             in set_DerivData (Some b) i (DerivData h1 (Some b) i + Data h1 (Some a) i * dv) h1)
          [0..<n] h
       = h[a := (h ! a)\<lparr>deriv := map (\<lambda>i. deriv (h ! a) ! i + data (h ! b) ! i * deriv (h ! c) ! i) [0..<n]
                                   @ drop n (deriv (h ! a))\<rparr>,
           b := (h ! b)\<lparr>deriv := map (\<lambda>i. deriv (h ! b) ! i + data (h ! a) ! i * deriv (h ! c) ! i) [0..<n]
                                   @ drop n (deriv (h ! b))\<rparr>]"
    (is "fold ?body [0..<n] h = ?R n")
  using assms(6,7)
proof (induction n)
  case 0
  then show ?case by (simp add: list_update_same_conv)
next
  case (Suc n)
  have n: "n < length (deriv (h ! a))" "n < length (deriv (h ! b))" using Suc.prems by simp_all
  have IH: "fold ?body [0..<n] h = ?R n" using Suc by simp
  show ?case unfolding fold_upt_Suc IH using n assms(1-5)
    by (simp add: set_DerivData_Some DerivData_Some Data_Some Let_def written_prefix_upd
        written_prefix_nth list_update_swap [of a b]
        del: upt_Suc add: upt_Suc_append)
qed

lemma fold_mult_backward_same:
  fixes h :: "('a::{plus,times}) heap"
  assumes "a < length h" "c \<noteq> a" and "n \<le> length (deriv (h ! a))"
  shows "fold (\<lambda>i h.
             let dv = DerivData h (Some c) i;
                 h1 = set_DerivData (Some a) i (DerivData h (Some a) i + Data h (Some a) i * dv) h
             in set_DerivData (Some a) i (DerivData h1 (Some a) i + Data h1 (Some a) i * dv) h1)
          [0..<n] h
       = h[a := (h ! a)\<lparr>deriv := map (\<lambda>i. deriv (h ! a) ! i + data (h ! a) ! i * deriv (h ! c) ! i
                                            + data (h ! a) ! i * deriv (h ! c) ! i) [0..<n]
                                   @ drop n (deriv (h ! a))\<rparr>]"
    (is "fold ?body [0..<n] h = ?R n")
  using assms(3)
proof (induction n)
  case 0
  then show ?case by (simp add: list_update_same_conv)
next
  case (Suc n)
  have n: "n < length (deriv (h ! a))" using Suc.prems by simp
  have IH: "fold ?body [0..<n] h = ?R n" using Suc by simp
  show ?case unfolding fold_upt_Suc IH using n assms(1,2)
    by (simp add: set_DerivData_Some DerivData_Some Data_Some Let_def written_prefix_upd
        written_prefix_nth written_cons_nth written_cons_upd
        del: upt_Suc add: upt_Suc_append)
qed

section \<open>The element-wise multiplication layer\<close>

lemma live_Some: "live h (Some a) \<longleftrightarrow> a < length h \<and> length (data (h ! a)) = Size (h ! a) \<and> length (deriv (h ! a)) = Size (h ! a)"
  by (simp add: live_def)

lemma live_SomeE:
  assumes "live h p"
  obtains a where "p = Some a" "a < length h" "length (data (h ! a)) = Size (h ! a)"
    "length (deriv (h ! a)) = Size (h ! a)"
  using assms by (cases p) (auto simp: live_def)

lemma LayerEltwiseMult_okE:
  assumes "LayerEltwiseMult_ok L h"
  obtains a b c where "ins L ! 0 = Some a" "ins L ! 1 = Some b" "outs L ! 0 = Some c"
    "a < length h" "b < length h" "c < length h" "c \<noteq> a" "c \<noteq> b"
    "length (data (h ! a)) = Size (h ! c)" "length (deriv (h ! a)) = Size (h ! c)"
    "length (data (h ! b)) = Size (h ! c)" "length (deriv (h ! b)) = Size (h ! c)"
    "length (data (h ! c)) = Size (h ! c)" "length (deriv (h ! c)) = Size (h ! c)"
proof -
  from assms have l: "live h (ins L ! 0)" "live h (ins L ! 1)" "live h (outs L ! 0)"
    and d: "outs L ! 0 \<noteq> ins L ! 0" "outs L ! 0 \<noteq> ins L ! 1"
    and s: "Size (deref h (ins L ! 0)) = Size (deref h (outs L ! 0))"
           "Size (deref h (ins L ! 1)) = Size (deref h (outs L ! 0))"
    by (simp_all add: LayerEltwiseMult_ok_def)
  from l(1) obtain a where a: "ins L ! 0 = Some a" "a < length h"
    "length (data (h ! a)) = Size (h ! a)" "length (deriv (h ! a)) = Size (h ! a)"
    by (rule live_SomeE)
  from l(2) obtain b where b: "ins L ! 1 = Some b" "b < length h"
    "length (data (h ! b)) = Size (h ! b)" "length (deriv (h ! b)) = Size (h ! b)"
    by (rule live_SomeE)
  from l(3) obtain c where c: "outs L ! 0 = Some c" "c < length h"
    "length (data (h ! c)) = Size (h ! c)" "length (deriv (h ! c)) = Size (h ! c)"
    by (rule live_SomeE)
  show thesis
    using a b c d s by (intro that [of a b c]) (simp_all add: deref_def)
qed

lemma LayerEltwiseMult_Forward_heap:
  fixes h :: "('a::times) heap"
  assumes "ins L ! 0 = Some a" "ins L ! 1 = Some b" "outs L ! 0 = Some c"
    and "c < length h" "c \<noteq> a" "c \<noteq> b" "length (data (h ! c)) = Size (h ! c)"
  shows "LayerEltwiseMult_Forward st L h
         = h[c := (h ! c)\<lparr>data := map (\<lambda>i. data (h ! a) ! i * data (h ! b) ! i) [0..<Size (h ! c)]\<rparr>]"
proof -
  have "fold (\<lambda>i h. set_Data (Some c) i (Data h (Some a) i * Data h (Some b) i) h) [0..<Size (h ! c)] h
        = h[c := (h ! c)\<lparr>data := map (\<lambda>i. data (h ! a) ! i * data (h ! b) ! i) [0..<Size (h ! c)]
                                   @ drop (Size (h ! c)) (data (h ! c))\<rparr>]"
    using assms by (intro fold_set_Data) (simp_all add: Data_Some)
  then show ?thesis
    using assms by (simp add: LayerEltwiseMult_Forward_def deref_def)
qed

lemma LayerEltwiseMult_Backward_heap_distinct:
  fixes h :: "('a::{plus,times}) heap"
  assumes "ins L ! 0 = Some a" "ins L ! 1 = Some b" "outs L ! 0 = Some c"
    and "a < length h" "b < length h" "a \<noteq> b" "c \<noteq> a" "c \<noteq> b"
    and "length (deriv (h ! a)) = Size (h ! c)" "length (deriv (h ! b)) = Size (h ! c)"
  shows "LayerEltwiseMult_Backward st L h
         = h[a := (h ! a)\<lparr>deriv := map (\<lambda>i. deriv (h ! a) ! i + data (h ! b) ! i * deriv (h ! c) ! i)
                                       [0..<Size (h ! c)]\<rparr>,
             b := (h ! b)\<lparr>deriv := map (\<lambda>i. deriv (h ! b) ! i + data (h ! a) ! i * deriv (h ! c) ! i)
                                       [0..<Size (h ! c)]\<rparr>]"
  using assms fold_mult_backward_distinct [of a h b c "Size (h ! c)"]
  by (simp add: LayerEltwiseMult_Backward_def deref_def)

lemma LayerEltwiseMult_Backward_heap_same:
  fixes h :: "('a::{plus,times}) heap"
  assumes "ins L ! 0 = Some a" "ins L ! 1 = Some a" "outs L ! 0 = Some c"
    and "a < length h" "c \<noteq> a"
    and "length (deriv (h ! a)) = Size (h ! c)"
  shows "LayerEltwiseMult_Backward st L h
         = h[a := (h ! a)\<lparr>deriv := map (\<lambda>i. deriv (h ! a) ! i + data (h ! a) ! i * deriv (h ! c) ! i
                                             + data (h ! a) ! i * deriv (h ! c) ! i)
                                       [0..<Size (h ! c)]\<rparr>]"
  using assms fold_mult_backward_same [of a h c "Size (h ! c)"]
  by (simp add: LayerEltwiseMult_Backward_def deref_def)

lemma Size_new_Mat: "Size (new_Mat sz flag) = prod_list sz"
  by (simp add: Size_def new_Mat_def)

lemma LayerEltwiseMult_success:
  assumes "length inp = 2" "Size (deref h (inp ! 0)) = Size (deref h (inp ! 1))"
  shows "LayerEltwiseMult nm inp h
         = Inr (\<lparr>name = nm, ins = inp, outs = [Some (length h)]\<rparr>,
                h @ [new_Mat (msize (deref h (inp ! 0))) True])"
  using assms
  by (simp add: LayerEltwiseMult_def Parent_def Check_def make_shared_def resize_def)

lemma LayerEltwiseMult_establishes_ok:
  fixes h :: "('a::zero) heap"
  assumes "LayerEltwiseMult nm inp h = Inr (L, h')" "live h (inp ! 0)" "live h (inp ! 1)"
  shows "LayerEltwiseMult_ok L h'"
proof -
  have len: "length inp = 2" and sz: "Size (deref h (inp ! 0)) = Size (deref h (inp ! 1))"
    using assms(1)
    by (auto simp: LayerEltwiseMult_def Parent_def Check_def Let_def split: if_splits)
  from assms(2) obtain a where a: "inp ! 0 = Some a" "a < length h"
    "length (data (h ! a)) = Size (h ! a)" "length (deriv (h ! a)) = Size (h ! a)"
    by (rule live_SomeE)
  from assms(3) obtain b where b: "inp ! 1 = Some b" "b < length h"
    "length (data (h ! b)) = Size (h ! b)" "length (deriv (h ! b)) = Size (h ! b)"
    by (rule live_SomeE)
  have L: "L = \<lparr>name = nm, ins = inp, outs = [Some (length h)]\<rparr>"
    and h': "h' = h @ [new_Mat (msize (h ! a)) True]"
    using assms(1) LayerEltwiseMult_success [OF len sz, of nm] a(1) by (simp_all add: deref_def)
  show ?thesis
    using a b len sz
    by (simp add: LayerEltwiseMult_ok_def L h' live_Some nth_append deref_def Size_new_Mat)
       (simp add: new_Mat_def Size_def)
qed

text \<open>
  Claim C9. Constructing an element-wise multiplication layer fails its check (the
  process terminates) whenever the number of inputs is not 2, and whenever the two
  inputs have different element counts. With exactly two inputs of equal element count
  the construction succeeds: it allocates one output tensor, with the shape of the first
  input and so with the element count of both.
\<close>

theorem LayerEltwiseMult_ctor:
  fixes h :: "('a::zero) heap"
  shows "(length inp \<noteq> 2 \<longrightarrow>
            LayerEltwiseMult nm inp h = Inl (Check_failed ''Layer '%s' must have 2 inputs''))
       \<and> (length inp = 2 \<and> Size (deref h (inp ! 0)) \<noteq> Size (deref h (inp ! 1)) \<longrightarrow>
            LayerEltwiseMult nm inp h = Inl (Check_failed ''Layer '%s' inputs must have the same size''))
       \<and> (length inp = 2 \<and> Size (deref h (inp ! 0)) = Size (deref h (inp ! 1)) \<longrightarrow>
            (\<exists>L h'. LayerEltwiseMult nm inp h = Inr (L, h')
               \<and> ins L = inp \<and> outs L = [Some (length h)]
               \<and> h' = h @ [new_Mat (msize (deref h (inp ! 0))) True]
               \<and> Size (deref h' (outs L ! 0)) = Size (deref h (inp ! 0))
               \<and> Size (deref h' (outs L ! 0)) = Size (deref h (inp ! 1))))"
proof (intro conjI impI)
  assume "length inp \<noteq> 2"
  then show "LayerEltwiseMult nm inp h = Inl (Check_failed ''Layer '%s' must have 2 inputs'')"
    by (simp add: LayerEltwiseMult_def Parent_def Check_def)
next
  assume "length inp = 2 \<and> Size (deref h (inp ! 0)) \<noteq> Size (deref h (inp ! 1))"
  then show "LayerEltwiseMult nm inp h
             = Inl (Check_failed ''Layer '%s' inputs must have the same size'')"
    by (simp add: LayerEltwiseMult_def Parent_def Check_def)
next
  assume ok: "length inp = 2 \<and> Size (deref h (inp ! 0)) = Size (deref h (inp ! 1))"
  then have "LayerEltwiseMult nm inp h
         = Inr (\<lparr>name = nm, ins = inp, outs = [Some (length h)]\<rparr>,
                h @ [new_Mat (msize (deref h (inp ! 0))) True])"
    by (simp add: LayerEltwiseMult_success)
  moreover have "Size (deref (h @ [new_Mat (msize (deref h (inp ! 0))) True :: 'a Mat]) (Some (length h)))
                 = Size (deref h (inp ! 0))"
    by (simp add: deref_def Size_new_Mat) (simp add: Size_def)
  ultimately show "\<exists>L h'. LayerEltwiseMult nm inp h = Inr (L, h')
               \<and> ins L = inp \<and> outs L = [Some (length h)]
               \<and> h' = h @ [new_Mat (msize (deref h (inp ! 0))) True]
               \<and> Size (deref h' (outs L ! 0)) = Size (deref h (inp ! 0))
               \<and> Size (deref h' (outs L ! 0)) = Size (deref h (inp ! 1))"
    using ok by simp
qed

text \<open>
  Claim C5. For two inputs \<open>a\<close> and \<open>b\<close> of equal size, \<open>Forward\<close> sets
  \<open>output[i] = a[i] * b[i]\<close> for every element and changes no other tensor. \<open>Backward\<close>
  adds \<open>b[i] * output.deriv[i]\<close> into \<open>a.deriv[i]\<close> and \<open>a[i] * output.deriv[i]\<close> into
  \<open>b.deriv[i]\<close>; when both inputs are one tensor the two contributions accumulate in its
  gradient. \<open>Backward\<close> changes no data buffer and no other tensor, the layer with its two
  inputs swapped computes the same gradients, and neither pass depends on the phase.
\<close>

theorem LayerEltwiseMult_Forward_Backward:
  fixes h :: "('a::{plus,times}) heap"
  assumes ok: "LayerEltwiseMult_ok L h"
  shows "(\<forall>i < Size (deref h (outs L ! 0)).
            Data (LayerEltwiseMult_Forward st L h) (outs L ! 0) i
            = Data h (ins L ! 0) i * Data h (ins L ! 1) i)
       \<and> (\<forall>q. Some q \<noteq> outs L ! 0 \<longrightarrow> LayerEltwiseMult_Forward st L h ! q = h ! q)
       \<and> (ins L ! 0 \<noteq> ins L ! 1 \<longrightarrow>
            (\<forall>i < Size (deref h (outs L ! 0)).
               DerivData (LayerEltwiseMult_Backward st L h) (ins L ! 0) i
               = DerivData h (ins L ! 0) i + Data h (ins L ! 1) i * DerivData h (outs L ! 0) i
             \<and> DerivData (LayerEltwiseMult_Backward st L h) (ins L ! 1) i
               = DerivData h (ins L ! 1) i + Data h (ins L ! 0) i * DerivData h (outs L ! 0) i))
       \<and> (ins L ! 0 = ins L ! 1 \<longrightarrow>
            (\<forall>i < Size (deref h (outs L ! 0)).
               DerivData (LayerEltwiseMult_Backward st L h) (ins L ! 0) i
               = DerivData h (ins L ! 0) i + Data h (ins L ! 1) i * DerivData h (outs L ! 0) i
                 + Data h (ins L ! 0) i * DerivData h (outs L ! 0) i))
       \<and> (\<forall>q. data (LayerEltwiseMult_Backward st L h ! q) = data (h ! q)
              \<and> (Some q \<noteq> ins L ! 0 \<and> Some q \<noteq> ins L ! 1 \<longrightarrow>
                   LayerEltwiseMult_Backward st L h ! q = h ! q))
       \<and> LayerEltwiseMult_Backward st (L\<lparr>ins := [ins L ! 1, ins L ! 0]\<rparr>) h
         = LayerEltwiseMult_Backward st L h
       \<and> LayerEltwiseMult_Forward st' L h = LayerEltwiseMult_Forward st L h
       \<and> LayerEltwiseMult_Backward st' L h = LayerEltwiseMult_Backward st L h"
proof -
  from ok obtain a b c where p: "ins L ! 0 = Some a" "ins L ! 1 = Some b" "outs L ! 0 = Some c"
    and v: "a < length h" "b < length h" "c < length h" "c \<noteq> a" "c \<noteq> b"
    and n: "length (data (h ! a)) = Size (h ! c)" "length (deriv (h ! a)) = Size (h ! c)"
      "length (data (h ! b)) = Size (h ! c)" "length (deriv (h ! b)) = Size (h ! c)"
      "length (data (h ! c)) = Size (h ! c)" "length (deriv (h ! c)) = Size (h ! c)"
    by (rule LayerEltwiseMult_okE)
  have p2: "ins L ! Suc 0 = Some b" using p(2) by simp
  note F = LayerEltwiseMult_Forward_heap [OF p v(3,4,5) n(5)]
  have fwd: "\<forall>i < Size (deref h (outs L ! 0)).
            Data (LayerEltwiseMult_Forward st L h) (outs L ! 0) i
            = Data h (ins L ! 0) i * Data h (ins L ! 1) i"
    using v by (simp add: F p p2 Data_Some deref_def)
  have fwd_frame: "\<forall>q. Some q \<noteq> outs L ! 0 \<longrightarrow> LayerEltwiseMult_Forward st L h ! q = h ! q"
    by (simp add: F p)
  have bwd: "ins L ! 0 \<noteq> ins L ! 1 \<longrightarrow>
            (\<forall>i < Size (deref h (outs L ! 0)).
               DerivData (LayerEltwiseMult_Backward st L h) (ins L ! 0) i
               = DerivData h (ins L ! 0) i + Data h (ins L ! 1) i * DerivData h (outs L ! 0) i
             \<and> DerivData (LayerEltwiseMult_Backward st L h) (ins L ! 1) i
               = DerivData h (ins L ! 1) i + Data h (ins L ! 0) i * DerivData h (outs L ! 0) i)"
  proof
    assume "ins L ! 0 \<noteq> ins L ! 1"
    then have ab: "a \<noteq> b" using p by simp
    note B = LayerEltwiseMult_Backward_heap_distinct [OF p v(1,2) ab v(4,5) n(2,4)]
    show "\<forall>i < Size (deref h (outs L ! 0)).
               DerivData (LayerEltwiseMult_Backward st L h) (ins L ! 0) i
               = DerivData h (ins L ! 0) i + Data h (ins L ! 1) i * DerivData h (outs L ! 0) i
             \<and> DerivData (LayerEltwiseMult_Backward st L h) (ins L ! 1) i
               = DerivData h (ins L ! 1) i + Data h (ins L ! 0) i * DerivData h (outs L ! 0) i"
      using v ab by (simp add: B p p2 Data_Some DerivData_Some deref_def)
  qed
  have bwd_same: "ins L ! 0 = ins L ! 1 \<longrightarrow>
            (\<forall>i < Size (deref h (outs L ! 0)).
               DerivData (LayerEltwiseMult_Backward st L h) (ins L ! 0) i
               = DerivData h (ins L ! 0) i + Data h (ins L ! 1) i * DerivData h (outs L ! 0) i
                 + Data h (ins L ! 0) i * DerivData h (outs L ! 0) i)"
  proof
    assume "ins L ! 0 = ins L ! 1"
    then have ab: "b = a" using p by simp
    note B = LayerEltwiseMult_Backward_heap_same [OF p(1) p(2) [unfolded ab] p(3) v(1,4) n(2)]
    show "\<forall>i < Size (deref h (outs L ! 0)).
               DerivData (LayerEltwiseMult_Backward st L h) (ins L ! 0) i
               = DerivData h (ins L ! 0) i + Data h (ins L ! 1) i * DerivData h (outs L ! 0) i
                 + Data h (ins L ! 0) i * DerivData h (outs L ! 0) i"
      using v ab by (simp add: B p p2 Data_Some DerivData_Some deref_def)
  qed
  have bwd_frame: "\<forall>q. data (LayerEltwiseMult_Backward st L h ! q) = data (h ! q)
              \<and> (Some q \<noteq> ins L ! 0 \<and> Some q \<noteq> ins L ! 1 \<longrightarrow>
                   LayerEltwiseMult_Backward st L h ! q = h ! q)"
  proof (cases "a = b")
    case True
    note B = LayerEltwiseMult_Backward_heap_same [OF p(1) p(2) [folded True] p(3) v(1,4) n(2)]
    show ?thesis using v True by (simp add: B p p2 nth_list_update)
  next
    case False
    note B = LayerEltwiseMult_Backward_heap_distinct [OF p v(1,2) False v(4,5) n(2,4)]
    show ?thesis using v False by (simp add: B p p2 nth_list_update)
  qed
  have swap: "LayerEltwiseMult_Backward st (L\<lparr>ins := [ins L ! 1, ins L ! 0]\<rparr>) h
         = LayerEltwiseMult_Backward st L h"
  proof (cases "a = b")
    case True
    then show ?thesis using p p2 by (simp add: LayerEltwiseMult_Backward_def)
  next
    case False
    let ?L = "L\<lparr>ins := [ins L ! 1, ins L ! 0]\<rparr>"
    have p': "ins ?L ! 0 = Some b" "ins ?L ! 1 = Some a" "outs ?L ! 0 = Some c"
      using p by simp_all
    have ba: "b \<noteq> a" using False by simp
    show ?thesis
      unfolding LayerEltwiseMult_Backward_heap_distinct [OF p' v(2,1) ba v(5,4) n(4,2)]
        LayerEltwiseMult_Backward_heap_distinct [OF p v(1,2) False v(4,5) n(2,4)]
      using False by (simp add: list_update_swap [of a b])
  qed
  have phase: "LayerEltwiseMult_Forward st' L h = LayerEltwiseMult_Forward st L h"
    "LayerEltwiseMult_Backward st' L h = LayerEltwiseMult_Backward st L h"
    by (simp_all add: LayerEltwiseMult_Forward_def LayerEltwiseMult_Backward_def)
  from fwd fwd_frame bwd bwd_same bwd_frame swap phase show ?thesis
    by (intro conjI)
qed

section \<open>The dropout layer\<close>

lemma LayerDropout_okE:
  assumes "LayerDropout_ok L h"
  obtains a c k where "ins L ! 0 = Some a" "outs L ! 0 = Some c" "mask L = Some k"
    "a < length h" "c < length h" "k < length h" "c \<noteq> a" "k \<noteq> a" "k \<noteq> c"
    "Size (h ! c) = Size (h ! a)" "Size (h ! k) = Size (h ! a)"
    "length (data (h ! a)) = Size (h ! a)" "length (deriv (h ! a)) = Size (h ! a)"
    "length (data (h ! c)) = Size (h ! a)" "length (deriv (h ! c)) = Size (h ! a)"
    "length (data (h ! k)) = Size (h ! a)" "length (deriv (h ! k)) = Size (h ! a)"
proof -
  from assms have l: "live h (ins L ! 0)" "live h (outs L ! 0)" "live h (mask L)"
    and d: "outs L ! 0 \<noteq> ins L ! 0" "mask L \<noteq> ins L ! 0" "mask L \<noteq> outs L ! 0"
    and s: "Size (deref h (outs L ! 0)) = Size (deref h (ins L ! 0))"
           "Size (deref h (mask L)) = Size (deref h (ins L ! 0))"
    by (simp_all add: LayerDropout_ok_def)
  from l(1) obtain a where a: "ins L ! 0 = Some a" "a < length h"
    "length (data (h ! a)) = Size (h ! a)" "length (deriv (h ! a)) = Size (h ! a)"
    by (rule live_SomeE)
  from l(2) obtain c where c: "outs L ! 0 = Some c" "c < length h"
    "length (data (h ! c)) = Size (h ! c)" "length (deriv (h ! c)) = Size (h ! c)"
    by (rule live_SomeE)
  from l(3) obtain k where k: "mask L = Some k" "k < length h"
    "length (data (h ! k)) = Size (h ! k)" "length (deriv (h ! k)) = Size (h ! k)"
    by (rule live_SomeE)
  show thesis
    using a c k d s by (intro that [of a c k]) (simp_all add: deref_def)
qed

lemma LayerDropout_Forward_heap_other:
  assumes "phase st \<noteq> PHASE_TRAIN" "ins L ! 0 = Some a" "outs L ! 0 = Some c"
  shows "LayerDropout_Forward epsilon draw st L h = h[c := (h ! c)\<lparr>data := data (h ! a)\<rparr>]"
  using assms by (simp add: LayerDropout_Forward_def assign_def deref_def)

lemma LayerDropout_Forward_heap_keep:
  assumes "phase st = PHASE_TRAIN" "drop_prob L < epsilon"
    and "ins L ! 0 = Some a" "outs L ! 0 = Some c" "mask L = Some k" "k \<noteq> c"
  shows "LayerDropout_Forward epsilon draw st L h
         = h[c := (h ! c)\<lparr>data := data (h ! a)\<rparr>,
             k := (h ! k)\<lparr>data := map (\<lambda>_. 1) (data (h ! k))\<rparr>]"
  using assms by (simp add: LayerDropout_Forward_def assign_def deref_def Let_def Set_def)

lemma LayerDropout_Forward_heap_drop:
  assumes "phase st = PHASE_TRAIN" "\<not> drop_prob L < epsilon" "1 - epsilon < drop_prob L"
    and "ins L ! 0 = Some a" "outs L ! 0 = Some c" "mask L = Some k" "k \<noteq> c"
  shows "LayerDropout_Forward epsilon draw st L h
         = h[c := (h ! c)\<lparr>data := map (\<lambda>_. 0) (data (h ! c))\<rparr>,
             k := (h ! k)\<lparr>data := map (\<lambda>_. 0) (data (h ! k))\<rparr>]"
  using assms by (simp add: LayerDropout_Forward_def assign_def deref_def Let_def Set_def Zero_def)

lemma LayerDropout_Forward_heap_random:
  fixes h :: "('a::{zero,one,minus,times,inverse,ord}) heap"
  assumes "phase st = PHASE_TRAIN" "\<not> drop_prob L < epsilon" "\<not> 1 - epsilon < drop_prob L"
    and "ins L ! 0 = Some a" "outs L ! 0 = Some c" "mask L = Some k"
    and "c < length h" "k < length h" "c \<noteq> a" "k \<noteq> a" "k \<noteq> c"
    and "Size (h ! c) = Size (h ! a)" "Size (h ! k) = Size (h ! a)"
    and "length (data (h ! c)) = Size (h ! a)" "length (data (h ! k)) = Size (h ! a)"
  shows "LayerDropout_Forward epsilon draw st L h
         = h[k := (h ! k)\<lparr>data := map (\<lambda>i. if draw i < drop_prob L then 0 else 1 / (1 - drop_prob L))
                                      [0..<Size (h ! a)]\<rparr>,
             c := (h ! c)\<lparr>data := map (\<lambda>i. (if draw i < drop_prob L then 0 else 1 / (1 - drop_prob L))
                                            * data (h ! a) ! i)
                                      [0..<Size (h ! a)]\<rparr>]"
proof -
  let ?n = "Size (h ! a)"
  let ?m = "\<lambda>i. if draw i < drop_prob L then 0 else 1 / (1 - drop_prob L)"
  let ?h1 = "h[k := (h ! k)\<lparr>data := map ?m [0..<?n]\<rparr>]"
  have 1: "fold (\<lambda>i h. set_Data (Some k) i (?m i) h) [0..<?n] h
           = h[k := (h ! k)\<lparr>data := map ?m [0..<?n] @ drop ?n (data (h ! k))\<rparr>]"
    using assms by (intro fold_set_Data) simp_all
  have 2: "fold (\<lambda>i h. set_Data (Some c) i (Data h (Some k) i * Data h (Some a) i) h) [0..<?n] ?h1
           = ?h1[c := (?h1 ! c)\<lparr>data := map (\<lambda>i. ?m i * data (h ! a) ! i) [0..<?n]
                                           @ drop ?n (data (?h1 ! c))\<rparr>]"
    using assms by (intro fold_set_Data) (simp_all add: Data_Some)
  have "LayerDropout_Forward epsilon draw st L h
        = fold (\<lambda>i h. set_Data (Some c) i (Data h (Some k) i * Data h (Some a) i) h) [0..<?n] ?h1"
    using assms 1 by (simp add: LayerDropout_Forward_def deref_def Let_def)
  also have "\<dots> = ?h1[c := (?h1 ! c)\<lparr>data := map (\<lambda>i. ?m i * data (h ! a) ! i) [0..<?n]\<rparr>]"
    using assms 2 by simp
  finally show ?thesis using assms by simp
qed

lemma LayerDropout_Backward_heap:
  fixes h :: "('a::{plus,times}) heap"
  assumes "ins L ! 0 = Some a" "outs L ! 0 = Some c" "mask L = Some k"
    and "a < length h" "k < length h" "c \<noteq> a" "k \<noteq> a" "k \<noteq> c"
    and "Size (h ! c) = Size (h ! a)"
    and "length (deriv (h ! a)) = Size (h ! a)" "length (deriv (h ! k)) = Size (h ! a)"
  shows "LayerDropout_Backward st L h
         = h[a := (h ! a)\<lparr>deriv := map (\<lambda>i. deriv (h ! a) ! i + data (h ! k) ! i * deriv (h ! c) ! i)
                                       [0..<Size (h ! a)]\<rparr>,
             k := (h ! k)\<lparr>deriv := map (\<lambda>i. deriv (h ! k) ! i + data (h ! a) ! i * deriv (h ! c) ! i)
                                       [0..<Size (h ! a)]\<rparr>]"
proof -
  have ak: "a \<noteq> k" and ck: "c \<noteq> k" using assms by simp_all
  show ?thesis
    using assms fold_mult_backward_distinct [OF assms(4,5) ak assms(6) ck, of "Size (h ! a)"]
    by (simp add: LayerDropout_Backward_def deref_def)
qed

lemma Size_data_update: "Size (m\<lparr>data := d\<rparr>) = Size m"
  by (simp add: Size_def)

lemma Size_deriv_update: "Size (m\<lparr>deriv := d\<rparr>) = Size m"
  by (simp add: Size_def)

lemma LayerDropout_Forward_ok:
  fixes h :: "('a::{zero,one,minus,times,inverse,ord}) heap"
  assumes ok: "LayerDropout_ok L h"
  shows "LayerDropout_ok L (LayerDropout_Forward epsilon draw st L h)"
proof -
  from ok obtain a c k where p: "ins L ! 0 = Some a" "outs L ! 0 = Some c" "mask L = Some k"
    and v: "a < length h" "c < length h" "k < length h" "c \<noteq> a" "k \<noteq> a" "k \<noteq> c"
    and s: "Size (h ! c) = Size (h ! a)" "Size (h ! k) = Size (h ! a)"
    and n: "length (data (h ! a)) = Size (h ! a)" "length (deriv (h ! a)) = Size (h ! a)"
      "length (data (h ! c)) = Size (h ! a)" "length (deriv (h ! c)) = Size (h ! a)"
      "length (data (h ! k)) = Size (h ! a)" "length (deriv (h ! k)) = Size (h ! a)"
    by (rule LayerDropout_okE)
  have len: "length (ins L) = 1" "length (outs L) = 1"
    using ok by (simp_all add: LayerDropout_ok_def)
  consider (other) "phase st \<noteq> PHASE_TRAIN"
    | (keep) "phase st = PHASE_TRAIN" "drop_prob L < epsilon"
    | (drop) "phase st = PHASE_TRAIN" "\<not> drop_prob L < epsilon" "1 - epsilon < drop_prob L"
    | (random) "phase st = PHASE_TRAIN" "\<not> drop_prob L < epsilon" "\<not> 1 - epsilon < drop_prob L"
    by blast
  then show ?thesis
  proof cases
    case other
    show ?thesis
      unfolding LayerDropout_Forward_heap_other [OF other p(1,2)]
      using p v s n len
      by (simp add: LayerDropout_ok_def live_Some deref_def nth_list_update Size_data_update)
  next
    case keep
    show ?thesis
      unfolding LayerDropout_Forward_heap_keep [OF keep p v(6)]
      using p v s n len
      by (simp add: LayerDropout_ok_def live_Some deref_def nth_list_update Size_data_update)
  next
    case drop
    show ?thesis
      unfolding LayerDropout_Forward_heap_drop [OF drop p v(6)]
      using p v s n len
      by (simp add: LayerDropout_ok_def live_Some deref_def nth_list_update Size_data_update)
  next
    case random
    show ?thesis
      unfolding LayerDropout_Forward_heap_random [OF random p v(2-6) s n(3,5)]
      using p v s n len
      by (simp add: LayerDropout_ok_def live_Some deref_def nth_list_update Size_data_update)
  qed
qed

lemma LayerDropout_establishes_ok:
  fixes h :: "('a::zero) heap"
  assumes "LayerDropout nm inp param h = Inr (L, h')" "live h (inp ! 0)"
  shows "LayerDropout_ok L h'"
proof -
  have len: "length inp = 1"
    using assms(1)
    by (auto simp: LayerDropout_def Parent_def Check_def Let_def split: if_splits)
  from assms(2) obtain a where a: "inp ! 0 = Some a" "a < length h"
    "length (data (h ! a)) = Size (h ! a)" "length (deriv (h ! a)) = Size (h ! a)"
    by (rule live_SomeE)
  have L: "L = \<lparr>name = nm, ins = inp, outs = [Some (Suc (length h))],
                 drop_prob = param ''drop_prob'', mask = Some (length h)\<rparr>"
    and h': "h' = h @ [new_Mat (msize (h ! a)) True, new_Mat (msize (h ! a)) True]"
    using assms(1) len a
    by (simp_all add: LayerDropout_def Parent_def Check_def Let_def make_shared_def resize_def
        deref_def nth_append)
  show ?thesis
    using a len
    by (simp add: LayerDropout_ok_def L h' live_Some nth_append deref_def Size_new_Mat)
       (simp add: new_Mat_def Size_def)
qed

text \<open>
  Claim C7. Outside the training phase, for every input and every drop probability,
  \<open>Forward\<close> makes the output data a copy of the input data and leaves the mask, data
  and gradient, as it was; nothing but the output's data buffer changes.
\<close>

theorem LayerDropout_Forward_inference:
  fixes h :: "('a::{zero,one,minus,times,inverse,ord}) heap"
  assumes ok: "LayerDropout_ok L h" and ph: "phase st \<noteq> PHASE_TRAIN"
  shows "data (deref (LayerDropout_Forward epsilon draw st L h) (outs L ! 0))
           = data (deref h (ins L ! 0))
       \<and> deref (LayerDropout_Forward epsilon draw st L h) (mask L) = deref h (mask L)
       \<and> (\<forall>q. Some q \<noteq> outs L ! 0 \<longrightarrow> LayerDropout_Forward epsilon draw st L h ! q = h ! q)
       \<and> deriv (deref (LayerDropout_Forward epsilon draw st L h) (outs L ! 0))
           = deriv (deref h (outs L ! 0))"
proof -
  from ok obtain a c k where p: "ins L ! 0 = Some a" "outs L ! 0 = Some c" "mask L = Some k"
    and v: "a < length h" "c < length h" "k < length h" "c \<noteq> a" "k \<noteq> a" "k \<noteq> c"
    by (rule LayerDropout_okE)
  show ?thesis
    unfolding LayerDropout_Forward_heap_other [OF ph p(1,2)]
    using v by (simp add: p deref_def)
qed

text \<open>
  Claim C6. In the training phase, with \<open>p < epsilon\<close> the output data is a copy of the
  input data and every mask element is 1; with \<open>p > 1 - epsilon\<close> every output element
  and every mask element is 0. The machine epsilon is at most \<open>1 - epsilon\<close>, so the
  second case is not shadowed by the first, which the code tests first.
\<close>

theorem LayerDropout_Forward_boundary:
  fixes h :: "('a::{zero,one,minus,times,inverse,linorder}) heap"
  assumes ok: "LayerDropout_ok L h" and ph: "phase st = PHASE_TRAIN"
    and eps: "epsilon \<le> 1 - epsilon"
  shows "(drop_prob L < epsilon \<longrightarrow>
            data (deref (LayerDropout_Forward epsilon draw st L h) (outs L ! 0))
              = data (deref h (ins L ! 0))
          \<and> (\<forall>i < Size (deref h (mask L)).
                Data (LayerDropout_Forward epsilon draw st L h) (mask L) i = 1))
       \<and> (1 - epsilon < drop_prob L \<longrightarrow>
            (\<forall>i < Size (deref h (outs L ! 0)).
                Data (LayerDropout_Forward epsilon draw st L h) (outs L ! 0) i = 0
              \<and> Data (LayerDropout_Forward epsilon draw st L h) (mask L) i = 0))"
proof -
  from ok obtain a c k where p: "ins L ! 0 = Some a" "outs L ! 0 = Some c" "mask L = Some k"
    and v: "a < length h" "c < length h" "k < length h" "c \<noteq> a" "k \<noteq> a" "k \<noteq> c"
    and s: "Size (h ! c) = Size (h ! a)" "Size (h ! k) = Size (h ! a)"
    and n: "length (data (h ! a)) = Size (h ! a)" "length (deriv (h ! a)) = Size (h ! a)"
      "length (data (h ! c)) = Size (h ! a)" "length (deriv (h ! c)) = Size (h ! a)"
      "length (data (h ! k)) = Size (h ! a)" "length (deriv (h ! k)) = Size (h ! a)"
    by (rule LayerDropout_okE)
  have keep: "data (deref (LayerDropout_Forward epsilon draw st L h) (outs L ! 0))
              = data (deref h (ins L ! 0))
          \<and> (\<forall>i < Size (deref h (mask L)).
                Data (LayerDropout_Forward epsilon draw st L h) (mask L) i = 1)"
    if "drop_prob L < epsilon"
    unfolding LayerDropout_Forward_heap_keep [OF ph that p v(6)]
    using v s n by (simp add: p deref_def Data_Some)
  have drop: "\<forall>i < Size (deref h (outs L ! 0)).
                Data (LayerDropout_Forward epsilon draw st L h) (outs L ! 0) i = 0
              \<and> Data (LayerDropout_Forward epsilon draw st L h) (mask L) i = 0"
    if "1 - epsilon < drop_prob L"
  proof -
    from eps that have nb: "\<not> drop_prob L < epsilon" by simp
    show ?thesis
      unfolding LayerDropout_Forward_heap_drop [OF ph nb that p v(6)]
      using v s n by (simp add: p deref_def Data_Some)
  qed
  from keep drop show ?thesis by blast
qed

text \<open>
  Claim C3. In the training phase with \<open>epsilon \<le> p \<le> 1 - epsilon\<close>, for every sequence
  of draws, element \<open>i\<close> of the mask is \<open>1 / (1 - p)\<close> if its draw is at least \<open>p\<close> and
  0 otherwise, and \<open>output[i] = mask[i] * input[i]\<close>.
\<close>

theorem LayerDropout_Forward_random:
  fixes h :: "('a::{zero,one,minus,times,inverse,linorder}) heap"
  assumes ok: "LayerDropout_ok L h" and ph: "phase st = PHASE_TRAIN"
    and lo: "epsilon \<le> drop_prob L" and hi: "drop_prob L \<le> 1 - epsilon"
  shows "\<forall>i < Size (deref h (ins L ! 0)).
            Data (LayerDropout_Forward epsilon draw st L h) (mask L) i
              = (if drop_prob L \<le> draw i then 1 / (1 - drop_prob L) else 0)
          \<and> Data (LayerDropout_Forward epsilon draw st L h) (outs L ! 0) i
              = Data (LayerDropout_Forward epsilon draw st L h) (mask L) i * Data h (ins L ! 0) i"
proof -
  from ok obtain a c k where p: "ins L ! 0 = Some a" "outs L ! 0 = Some c" "mask L = Some k"
    and v: "a < length h" "c < length h" "k < length h" "c \<noteq> a" "k \<noteq> a" "k \<noteq> c"
    and s: "Size (h ! c) = Size (h ! a)" "Size (h ! k) = Size (h ! a)"
    and n: "length (data (h ! a)) = Size (h ! a)" "length (deriv (h ! a)) = Size (h ! a)"
      "length (data (h ! c)) = Size (h ! a)" "length (deriv (h ! c)) = Size (h ! a)"
      "length (data (h ! k)) = Size (h ! a)" "length (deriv (h ! k)) = Size (h ! a)"
    by (rule LayerDropout_okE)
  have b: "\<not> drop_prob L < epsilon" "\<not> 1 - epsilon < drop_prob L"
    using lo hi by simp_all
  show ?thesis
    unfolding LayerDropout_Forward_heap_random [OF ph b p v(2-6) s n(3,5)]
    using v by (auto simp add: p deref_def Data_Some)
qed

text \<open>
  Claim C4. In every phase and on every well-formed store, so whichever branch of
  \<open>Forward\<close> ran last (\<open>Forward\<close> keeps the store well-formed), \<open>Backward\<close> adds
  \<open>mask.data[i] * output.deriv[i]\<close> into \<open>input.deriv[i]\<close> and
  \<open>input.data[i] * output.deriv[i]\<close> into \<open>mask.deriv[i]\<close>: the new gradient is the old
  one plus the contribution. It changes no data buffer and no other tensor.
\<close>

theorem LayerDropout_Backward_accumulates:
  fixes h :: "('a::{zero,one,plus,minus,times,inverse,ord}) heap"
  assumes ok: "LayerDropout_ok L h"
  shows "(\<forall>i < Size (deref h (outs L ! 0)).
            DerivData (LayerDropout_Backward st L h) (ins L ! 0) i
              = DerivData h (ins L ! 0) i + Data h (mask L) i * DerivData h (outs L ! 0) i
          \<and> DerivData (LayerDropout_Backward st L h) (mask L) i
              = DerivData h (mask L) i + Data h (ins L ! 0) i * DerivData h (outs L ! 0) i)
       \<and> (\<forall>q. data (LayerDropout_Backward st L h ! q) = data (h ! q)
              \<and> (Some q \<noteq> ins L ! 0 \<and> Some q \<noteq> mask L \<longrightarrow>
                   LayerDropout_Backward st L h ! q = h ! q))
       \<and> LayerDropout_Backward st' L h = LayerDropout_Backward st L h
       \<and> LayerDropout_ok L (LayerDropout_Forward epsilon draw st0 L h)"
proof -
  from ok obtain a c k where p: "ins L ! 0 = Some a" "outs L ! 0 = Some c" "mask L = Some k"
    and v: "a < length h" "c < length h" "k < length h" "c \<noteq> a" "k \<noteq> a" "k \<noteq> c"
    and s: "Size (h ! c) = Size (h ! a)" "Size (h ! k) = Size (h ! a)"
    and n: "length (data (h ! a)) = Size (h ! a)" "length (deriv (h ! a)) = Size (h ! a)"
      "length (data (h ! c)) = Size (h ! a)" "length (deriv (h ! c)) = Size (h ! a)"
      "length (data (h ! k)) = Size (h ! a)" "length (deriv (h ! k)) = Size (h ! a)"
    by (rule LayerDropout_okE)
  note B = LayerDropout_Backward_heap [OF p v(1,3,4,5,6) s(1) n(2,6)]
  have 1: "\<forall>i < Size (deref h (outs L ! 0)).
            DerivData (LayerDropout_Backward st L h) (ins L ! 0) i
              = DerivData h (ins L ! 0) i + Data h (mask L) i * DerivData h (outs L ! 0) i
          \<and> DerivData (LayerDropout_Backward st L h) (mask L) i
              = DerivData h (mask L) i + Data h (ins L ! 0) i * DerivData h (outs L ! 0) i"
    using v s by (simp add: B p deref_def Data_Some DerivData_Some)
  have 2: "\<forall>q. data (LayerDropout_Backward st L h ! q) = data (h ! q)
              \<and> (Some q \<noteq> ins L ! 0 \<and> Some q \<noteq> mask L \<longrightarrow>
                   LayerDropout_Backward st L h ! q = h ! q)"
    using v by (simp add: B p nth_list_update)
  have 3: "LayerDropout_Backward st' L h = LayerDropout_Backward st L h"
    by (simp add: LayerDropout_Backward_def)
  from 1 2 3 LayerDropout_Forward_ok [OF ok] show ?thesis by blast
qed

section \<open>The scenarios of the specification\<close>

lemmas example_defs = eltwise_heap_def eltwise_layer_def square_layer_def dropout_heap_def
  dropout_layer_def dropout_draw_def train_state_def test_state_def float_epsilon_def

text \<open>The constructor on one input, on inputs of sizes 2 and 3, and on two inputs of size 2.\<close>

theorem LayerEltwiseMult_ctor_witness:
  "LayerEltwiseMult ''mult'' [Some 0] eltwise_heap
     = Inl (Check_failed ''Layer '%s' must have 2 inputs'')
   \<and> LayerEltwiseMult ''mult'' [Some 0, Some 1]
        [\<lparr>msize = [2], data = [2, 3], deriv = [0, 0]\<rparr>, \<lparr>msize = [3], data = [5, 7, 9], deriv = [0, 0, 0 :: real]\<rparr>]
     = Inl (Check_failed ''Layer '%s' inputs must have the same size'')
   \<and> (\<exists>L h'. LayerEltwiseMult ''mult'' [Some 0, Some 1] (take 2 eltwise_heap) = Inr (L, h')
         \<and> outs L = [Some 2] \<and> h' = take 2 eltwise_heap @ [new_Mat [2] True]
         \<and> Size (deref h' (outs L ! 0)) = 2)"
proof -
  let ?bad = "[\<lparr>msize = [2], data = [2, 3], deriv = [0, 0]\<rparr>,
               \<lparr>msize = [3], data = [5, 7, 9], deriv = [0, 0, 0 :: real]\<rparr>]"
  have 1: "length [Some (0::nat)] \<noteq> 2" by simp
  have 2: "length [Some (0::nat), Some 1] = 2
           \<and> Size (deref ?bad ([Some 0, Some 1] ! 0)) \<noteq> Size (deref ?bad ([Some 0, Some 1] ! 1))"
    by (simp add: Size_def deref_def)
  have 3: "length [Some (0::nat), Some 1] = 2
           \<and> Size (deref (take 2 eltwise_heap) ([Some 0, Some 1] ! 0))
             = Size (deref (take 2 eltwise_heap) ([Some 0, Some 1] ! 1))"
    by (simp add: Size_def deref_def eltwise_heap_def)
  from LayerEltwiseMult_ctor [of "[Some 0]" "''mult''" eltwise_heap] 1
  have a: "LayerEltwiseMult ''mult'' [Some 0] eltwise_heap
     = Inl (Check_failed ''Layer '%s' must have 2 inputs'')"
    by blast
  from LayerEltwiseMult_ctor [of "[Some 0, Some 1]" "''mult''" ?bad] 2
  have b: "LayerEltwiseMult ''mult'' [Some 0, Some 1] ?bad
     = Inl (Check_failed ''Layer '%s' inputs must have the same size'')"
    by blast
  from LayerEltwiseMult_ctor [of "[Some 0, Some 1]" "''mult''" "take 2 eltwise_heap"] 3
  have c: "\<exists>L h'. LayerEltwiseMult ''mult'' [Some 0, Some 1] (take 2 eltwise_heap) = Inr (L, h')
         \<and> outs L = [Some 2] \<and> h' = take 2 eltwise_heap @ [new_Mat [2] True]
         \<and> Size (deref h' (outs L ! 0)) = 2"
    by (auto simp add: eltwise_heap_def deref_def Size_def numeral_2_eq_2)
  from a b c show ?thesis by blast
qed

text \<open>The product of \<open>[2, 3]\<close> and \<open>[5, 7]\<close>, and of \<open>[2, 3]\<close> with itself.\<close>

theorem LayerEltwiseMult_Forward_Backward_witness:
  "LayerEltwiseMult_ok eltwise_layer eltwise_heap
   \<and> LayerEltwiseMult_ok square_layer eltwise_heap
   \<and> Data (LayerEltwiseMult_Forward train_state eltwise_layer eltwise_heap) (Some 2) 0 = 10
   \<and> Data (LayerEltwiseMult_Forward train_state eltwise_layer eltwise_heap) (Some 2) 1 = 21
   \<and> DerivData (LayerEltwiseMult_Backward train_state eltwise_layer eltwise_heap) (Some 0) 0 = 5
   \<and> DerivData (LayerEltwiseMult_Backward train_state eltwise_layer eltwise_heap) (Some 0) 1 = 7
   \<and> DerivData (LayerEltwiseMult_Backward train_state eltwise_layer eltwise_heap) (Some 1) 0 = 2
   \<and> DerivData (LayerEltwiseMult_Backward train_state eltwise_layer eltwise_heap) (Some 1) 1 = 3
   \<and> DerivData (LayerEltwiseMult_Backward train_state square_layer eltwise_heap) (Some 0) 1 = 6"
proof -
  have ok: "LayerEltwiseMult_ok eltwise_layer eltwise_heap"
    by (simp add: LayerEltwiseMult_ok_def live_def Size_def deref_def example_defs)
  have ok2: "LayerEltwiseMult_ok square_layer eltwise_heap"
    by (simp add: LayerEltwiseMult_ok_def live_def Size_def deref_def example_defs)
  have n: "Size (deref eltwise_heap (outs eltwise_layer ! 0)) = 2"
    "Size (deref eltwise_heap (outs square_layer ! 0)) = 2"
    by (simp_all add: Size_def deref_def example_defs)
  note T = LayerEltwiseMult_Forward_Backward [OF ok, of train_state train_state, unfolded n]
  note T2 = LayerEltwiseMult_Forward_Backward [OF ok2, of train_state train_state, unfolded n]
  have d: "ins eltwise_layer ! 0 \<noteq> ins eltwise_layer ! 1" "ins square_layer ! 0 = ins square_layer ! 1"
    by (simp_all add: example_defs)
  from T have F: "\<forall>i<2. Data (LayerEltwiseMult_Forward train_state eltwise_layer eltwise_heap)
                           (outs eltwise_layer ! 0) i
                         = Data eltwise_heap (ins eltwise_layer ! 0) i * Data eltwise_heap (ins eltwise_layer ! 1) i"
    by blast
  from T d(1) have B: "\<forall>i<2.
               DerivData (LayerEltwiseMult_Backward train_state eltwise_layer eltwise_heap) (ins eltwise_layer ! 0) i
               = DerivData eltwise_heap (ins eltwise_layer ! 0) i
                 + Data eltwise_heap (ins eltwise_layer ! 1) i * DerivData eltwise_heap (outs eltwise_layer ! 0) i
             \<and> DerivData (LayerEltwiseMult_Backward train_state eltwise_layer eltwise_heap) (ins eltwise_layer ! 1) i
               = DerivData eltwise_heap (ins eltwise_layer ! 1) i
                 + Data eltwise_heap (ins eltwise_layer ! 0) i * DerivData eltwise_heap (outs eltwise_layer ! 0) i"
    by blast
  from T2 d(2) have B2: "\<forall>i<2.
               DerivData (LayerEltwiseMult_Backward train_state square_layer eltwise_heap) (ins square_layer ! 0) i
               = DerivData eltwise_heap (ins square_layer ! 0) i
                 + Data eltwise_heap (ins square_layer ! 1) i * DerivData eltwise_heap (outs square_layer ! 0) i
                 + Data eltwise_heap (ins square_layer ! 0) i * DerivData eltwise_heap (outs square_layer ! 0) i"
    by blast
  have two: "(0::nat) < 2" "(1::nat) < 2" by simp_all
  from F [rule_format, OF two(1)] F [rule_format, OF two(2)]
       B [rule_format, OF two(1)] B [rule_format, OF two(2)] B2 [rule_format, OF two(2)] ok ok2
  show ?thesis
    by (simp add: example_defs Data_def DerivData_def deref_def)
qed

lemma dropout_example_ok: "LayerDropout_ok (dropout_layer p) dropout_heap"
  by (simp add: LayerDropout_ok_def live_def Size_def deref_def dropout_layer_def dropout_heap_def)

lemma dropout_example_Size:
  "Size (deref dropout_heap (ins (dropout_layer p) ! 0)) = 4"
  "Size (deref dropout_heap (outs (dropout_layer p) ! 0)) = 4"
  "Size (deref dropout_heap (mask (dropout_layer p))) = 4"
  by (simp_all add: Size_def deref_def dropout_layer_def dropout_heap_def)

lemma float_epsilon_small: "float_epsilon \<le> 1 - float_epsilon"
  by (simp add: float_epsilon_def)

text \<open>The dropout scenario outside training.\<close>

theorem LayerDropout_Forward_inference_witness:
  "LayerDropout_ok (dropout_layer (1 / 2)) dropout_heap
   \<and> phase test_state \<noteq> PHASE_TRAIN
   \<and> data (deref (LayerDropout_Forward float_epsilon dropout_draw test_state
                     (dropout_layer (1 / 2)) dropout_heap) (Some 2)) = [1, 2, 3, 4]
   \<and> deref (LayerDropout_Forward float_epsilon dropout_draw test_state
               (dropout_layer (1 / 2)) dropout_heap) (Some 1)
     = \<lparr>msize = [4], data = [2, 0, 2, 0], deriv = [0, 0, 0, 0]\<rparr>"
proof -
  have ph: "phase test_state \<noteq> PHASE_TRAIN"
    by (simp add: test_state_def)
  from LayerDropout_Forward_inference [where L = "dropout_layer (1 / 2)" and h = dropout_heap
      and st = test_state and epsilon = float_epsilon and draw = dropout_draw,
      OF dropout_example_ok ph]
    dropout_example_ok [of "1 / 2"] ph
  show ?thesis
    by (simp add: dropout_layer_def dropout_heap_def deref_def)
qed

text \<open>The dropout scenario at drop probabilities 0 and 1.\<close>

theorem LayerDropout_Forward_boundary_witness:
  "LayerDropout_ok (dropout_layer 0) dropout_heap
   \<and> LayerDropout_ok (dropout_layer 1) dropout_heap
   \<and> phase train_state = PHASE_TRAIN \<and> float_epsilon \<le> 1 - float_epsilon
   \<and> drop_prob (dropout_layer 0) < float_epsilon
   \<and> 1 - float_epsilon < drop_prob (dropout_layer 1)
   \<and> data (deref (LayerDropout_Forward float_epsilon dropout_draw train_state
                     (dropout_layer 0) dropout_heap) (Some 2)) = [1, 2, 3, 4]
   \<and> Data (LayerDropout_Forward float_epsilon dropout_draw train_state
              (dropout_layer 0) dropout_heap) (Some 1) 1 = 1
   \<and> Data (LayerDropout_Forward float_epsilon dropout_draw train_state
              (dropout_layer 1) dropout_heap) (Some 2) 0 = 0
   \<and> Data (LayerDropout_Forward float_epsilon dropout_draw train_state
              (dropout_layer 1) dropout_heap) (Some 1) 0 = 0"
proof -
  have ph: "phase train_state = PHASE_TRAIN"
    by (simp add: train_state_def)
  have lo: "drop_prob (dropout_layer 0) < float_epsilon"
    and hi: "1 - float_epsilon < drop_prob (dropout_layer 1)"
    by (simp_all add: dropout_layer_def float_epsilon_def)
  note T0 = LayerDropout_Forward_boundary [where L = "dropout_layer 0" and h = dropout_heap
      and st = train_state and epsilon = float_epsilon and draw = dropout_draw,
      OF dropout_example_ok ph float_epsilon_small, unfolded dropout_example_Size]
  note T1 = LayerDropout_Forward_boundary [where L = "dropout_layer 1" and h = dropout_heap
      and st = train_state and epsilon = float_epsilon and draw = dropout_draw,
      OF dropout_example_ok ph float_epsilon_small, unfolded dropout_example_Size]
  from T0 lo have a: "data (deref (LayerDropout_Forward float_epsilon dropout_draw train_state
                     (dropout_layer 0) dropout_heap) (outs (dropout_layer 0) ! 0))
                = data (deref dropout_heap (ins (dropout_layer 0) ! 0))"
    and b: "\<forall>i<4. Data (LayerDropout_Forward float_epsilon dropout_draw train_state
              (dropout_layer 0) dropout_heap) (mask (dropout_layer 0)) i = 1"
    by blast+
  from T1 hi have c: "\<forall>i<4. Data (LayerDropout_Forward float_epsilon dropout_draw train_state
              (dropout_layer 1) dropout_heap) (outs (dropout_layer 1) ! 0) i = 0
        \<and> Data (LayerDropout_Forward float_epsilon dropout_draw train_state
              (dropout_layer 1) dropout_heap) (mask (dropout_layer 1)) i = 0"
    by blast
  have i: "(0::nat) < 4" "(1::nat) < 4" by simp_all
  from a b [rule_format, OF i(2)] c [rule_format, OF i(1)] ph lo hi float_epsilon_small
    dropout_example_ok [of 0] dropout_example_ok [of 1]
  show ?thesis
    by (simp add: dropout_layer_def dropout_heap_def deref_def)
qed

text \<open>The dropout scenario at drop probability \<open>1/2\<close>: elements 2 and 3 of the mask and of the output.\<close>

theorem LayerDropout_Forward_random_witness:
  "LayerDropout_ok (dropout_layer (1 / 2)) dropout_heap
   \<and> phase train_state = PHASE_TRAIN
   \<and> float_epsilon \<le> drop_prob (dropout_layer (1 / 2))
   \<and> drop_prob (dropout_layer (1 / 2)) \<le> 1 - float_epsilon
   \<and> Data (LayerDropout_Forward float_epsilon dropout_draw train_state
              (dropout_layer (1 / 2)) dropout_heap) (Some 1) 2 = 2
   \<and> Data (LayerDropout_Forward float_epsilon dropout_draw train_state
              (dropout_layer (1 / 2)) dropout_heap) (Some 1) 3 = 0
   \<and> Data (LayerDropout_Forward float_epsilon dropout_draw train_state
              (dropout_layer (1 / 2)) dropout_heap) (Some 2) 2 = 6
   \<and> Data (LayerDropout_Forward float_epsilon dropout_draw train_state
              (dropout_layer (1 / 2)) dropout_heap) (Some 2) 3 = 0"
proof -
  have ph: "phase train_state = PHASE_TRAIN"
    by (simp add: train_state_def)
  have lo: "float_epsilon \<le> drop_prob (dropout_layer (1 / 2))"
    and hi: "drop_prob (dropout_layer (1 / 2)) \<le> 1 - float_epsilon"
    by (simp_all add: dropout_layer_def float_epsilon_def)
  note T = LayerDropout_Forward_random [where L = "dropout_layer (1 / 2)" and h = dropout_heap
      and st = train_state and epsilon = float_epsilon and draw = dropout_draw,
      OF dropout_example_ok ph lo hi, unfolded dropout_example_Size]
  have i: "(2::nat) < 4" "(3::nat) < 4" by simp_all
  from T [rule_format, OF i(1)] T [rule_format, OF i(2)] ph lo hi dropout_example_ok [of "1 / 2"]
  show ?thesis
    by (simp add: dropout_layer_def dropout_heap_def dropout_draw_def Data_def deref_def)
qed

text \<open>The backward pass of the dropout scenario with the mask \<open>[2, 0, 2, 0]\<close>.\<close>

theorem LayerDropout_Backward_accumulates_witness:
  "LayerDropout_ok (dropout_layer (1 / 2)) dropout_heap
   \<and> DerivData (LayerDropout_Backward train_state (dropout_layer (1 / 2)) dropout_heap) (Some 0) 2 = 2
   \<and> DerivData (LayerDropout_Backward train_state (dropout_layer (1 / 2)) dropout_heap) (Some 0) 3 = 0
   \<and> DerivData (LayerDropout_Backward train_state (dropout_layer (1 / 2)) dropout_heap) (Some 1) 2 = 3
   \<and> DerivData (LayerDropout_Backward train_state (dropout_layer (1 / 2)) dropout_heap) (Some 1) 3 = 4
   \<and> LayerDropout_Backward train_state (dropout_layer (1 / 2)) dropout_heap ! 2 = dropout_heap ! 2"
proof -
  note T = LayerDropout_Backward_accumulates [where L = "dropout_layer (1 / 2)" and h = dropout_heap
      and st = train_state and st' = train_state and ?st0.0 = train_state
      and epsilon = float_epsilon and draw = dropout_draw,
      OF dropout_example_ok, unfolded dropout_example_Size]
  from T have a: "\<forall>i<4.
            DerivData (LayerDropout_Backward train_state (dropout_layer (1 / 2)) dropout_heap)
                (ins (dropout_layer (1 / 2)) ! 0) i
              = DerivData dropout_heap (ins (dropout_layer (1 / 2)) ! 0) i
                + Data dropout_heap (mask (dropout_layer (1 / 2))) i
                  * DerivData dropout_heap (outs (dropout_layer (1 / 2)) ! 0) i
          \<and> DerivData (LayerDropout_Backward train_state (dropout_layer (1 / 2)) dropout_heap)
                (mask (dropout_layer (1 / 2))) i
              = DerivData dropout_heap (mask (dropout_layer (1 / 2))) i
                + Data dropout_heap (ins (dropout_layer (1 / 2)) ! 0) i
                  * DerivData dropout_heap (outs (dropout_layer (1 / 2)) ! 0) i"
    and b: "\<forall>q. data (LayerDropout_Backward train_state (dropout_layer (1 / 2)) dropout_heap ! q)
                  = data (dropout_heap ! q)
              \<and> (Some q \<noteq> ins (dropout_layer (1 / 2)) ! 0 \<and> Some q \<noteq> mask (dropout_layer (1 / 2)) \<longrightarrow>
                   LayerDropout_Backward train_state (dropout_layer (1 / 2)) dropout_heap ! q
                   = dropout_heap ! q)"
    by blast+
  have i: "(2::nat) < 4" "(3::nat) < 4" by simp_all
  from a [rule_format, OF i(1)] a [rule_format, OF i(2)] b [rule_format, of 2]
    dropout_example_ok [of "1 / 2"]
  show ?thesis
    by (simp add: dropout_layer_def dropout_heap_def Data_def DerivData_def deref_def)
qed

section \<open>The solver\<close>

subsection \<open>The snapshot setup\<close>

lemma length_resize: "length (resize n ps) = n"
  by (simp add: resize_def)

lemma Train_setup_fold:
  fixes h :: "('a::zero) heap"
  assumes valid: "\<forall>i < length (weight S). \<exists>a. weight S ! i = Some a \<and> a < length h"
    and k: "k \<le> length (weight S)" and len: "length (weight_prev S) = length (weight S)"
  shows "fold (\<lambda>i (S, h).
                 let (p, h') = make_shared (new_Mat (msize (deref h (weight S ! i))) False) h
                 in (S\<lparr>weight_prev := (weight_prev S)[i := p]\<rparr>, h'))
              [0..<k] (S, h)
         = (S\<lparr>weight_prev := map (\<lambda>i. Some (length h + i)) [0..<k] @ drop k (weight_prev S)\<rparr>,
            h @ map (\<lambda>i. new_Mat (msize (deref h (weight S ! i))) False) [0..<k])"
    (is "fold ?body [0..<k] (S, h) = ?R k")
  using k
proof (induction k)
  case 0
  then show ?case by simp
next
  case (Suc k)
  have IH: "fold ?body [0..<k] (S, h) = ?R k" using Suc by simp
  have k: "k < length (weight S)" "k < length (weight_prev S)" using Suc.prems len by simp_all
  from valid k(1) obtain a where a: "weight S ! k = Some a" "a < length h" by blast
  show ?case
    unfolding fold_upt_Suc IH using k a
    by (simp add: make_shared_def deref_def nth_append written_prefix_upd
        del: upt_Suc add: upt_Suc_append)
qed

lemma Train_setup_eq:
  fixes h :: "('a::zero) heap"
  assumes "\<forall>p \<in> set (Model_GetWeight E m []). \<exists>a. p = Some a \<and> a < length h"
  shows "Train_setup E m S h
         = (S\<lparr>weight := Model_GetWeight E m [],
               weight_prev := map (\<lambda>i. Some (length h + i)) [0..<length (Model_GetWeight E m [])]\<rparr>,
            h @ map (\<lambda>i. new_Mat (msize (deref h (Model_GetWeight E m [] ! i))) False)
                    [0..<length (Model_GetWeight E m [])])"
proof -
  let ?ws = "Model_GetWeight E m []"
  let ?S3 = "S\<lparr>weight := ?ws, weight_prev := resize (length ?ws) (weight_prev S)\<rparr>"
  have valid: "\<forall>i < length (weight ?S3). \<exists>a. weight ?S3 ! i = Some a \<and> a < length h"
    using assms by simp
  have "Train_setup E m S h
        = fold (\<lambda>i (S, h).
                 let (p, h') = make_shared (new_Mat (msize (deref h (weight S ! i))) False) h
                 in (S\<lparr>weight_prev := (weight_prev S)[i := p]\<rparr>, h'))
              [0..<length (weight ?S3)] (?S3, h)"
    by (simp add: Train_setup_def Let_def)
  also have "\<dots> = (?S3\<lparr>weight_prev := map (\<lambda>i. Some (length h + i)) [0..<length (weight ?S3)]
                                      @ drop (length (weight ?S3)) (weight_prev ?S3)\<rparr>,
            h @ map (\<lambda>i. new_Mat (msize (deref h (weight ?S3 ! i))) False) [0..<length (weight ?S3)])"
    by (rule Train_setup_fold [OF valid]) (simp_all add: length_resize)
  finally show ?thesis by (simp add: length_resize)
qed

subsection \<open>The four counters\<close>

lemma report_steps_append:
  "report_steps fmt (xs @ ys) = report_steps fmt xs @ report_steps fmt ys"
  by (induction fmt xs rule: report_steps.induct) simp_all

lemma fmt_distinct:
  "print_fmt \<noteq> test_fmt" "print_fmt \<noteq> lr_fmt" "test_fmt \<noteq> lr_fmt"
  "test_fmt \<noteq> print_fmt" "lr_fmt \<noteq> print_fmt" "lr_fmt \<noteq> test_fmt"
  by (simp_all add: print_fmt_def test_fmt_def lr_fmt_def)

text \<open>Counters against the step index.\<close>

lemma unat_step_Suc:
  fixes step :: "32 word"
  assumes "step < num_step"
  shows "unat (step + 1) = Suc (unat step)"
proof -
  have "unat step < unat num_step" using assms by (simp add: word_less_nat_alt)
  moreover have "unat num_step < 2 ^ 32" using unsigned_less [of num_step] by simp
  ultimately have "unat step + 1 < 2 ^ 32" by linarith
  then show ?thesis by (simp add: unat_word_ariths)
qed

lemma counter_Suc:
  fixes c p :: "32 word"
  assumes "1 \<le> c" "unat p = n mod unat c"
  shows "unat (p + 1) = Suc (unat p)"
proof -
  have "0 < unat c" using assms(1) by (simp add: word_le_nat_alt)
  then have "unat p < unat c" using assms(2) by simp
  then show ?thesis by (rule unat_step_Suc [unfolded word_less_nat_alt])
qed

lemma counter_fires:
  fixes c p step :: "32 word"
  assumes c: "1 \<le> c" and p: "unat p = unat step mod unat c" and s: "step < num_step"
  shows "c \<le> p + 1 \<longleftrightarrow> (step + 1) mod c = 0"
proof -
  have c0: "0 < unat c" using c by (simp add: word_le_nat_alt)
  have "c \<le> p + 1 \<longleftrightarrow> unat c \<le> Suc (unat step mod unat c)"
    using counter_Suc [OF c p] p by (simp add: word_le_nat_alt)
  also have "\<dots> \<longleftrightarrow> Suc (unat step mod unat c) = unat c"
    using mod_less_divisor [OF c0, of "unat step"] by linarith
  also have "\<dots> \<longleftrightarrow> Suc (unat step) mod unat c = 0"
    by (simp add: mod_Suc)
  also have "\<dots> \<longleftrightarrow> unat ((step + 1) mod c) = 0"
    by (simp add: unat_mod unat_step_Suc [OF s])
  also have "\<dots> \<longleftrightarrow> (step + 1) mod c = 0"
    by (simp add: unat_eq_zero)
  finally show ?thesis .
qed

lemma counter_next:
  fixes c p step :: "32 word"
  assumes c: "1 \<le> c" and p: "unat p = unat step mod unat c" and s: "step < num_step"
  shows "unat (if c \<le> p + 1 then 0 else p + 1) = unat (step + 1) mod unat c"
proof (cases "c \<le> p + 1")
  case True
  then have "(step + 1) mod c = 0" using counter_fires [OF c p s] by simp
  then have "unat ((step + 1) mod c) = 0" by simp
  then show ?thesis using True by (simp add: unat_mod)
next
  case False
  then have "\<not> unat c \<le> Suc (unat step mod unat c)"
    using counter_Suc [OF c p] p by (simp add: word_le_nat_alt)
  then have "Suc (unat step) mod unat c = Suc (unat step mod unat c)"
    by (simp add: mod_Suc)
  then show ?thesis
    using False counter_Suc [OF c p] p by (simp add: unat_step_Suc [OF s])
qed

lemma report_steps_single:
  "report_steps fmt [Report level f (U n # args)] = (if f = fmt then [n] else [])"
  "report_steps fmt [Called_Train, Called_Learn x] = []"
  "report_steps fmt [Called_Name, Called_Save file_name] = []"
  "report_steps fmt [Called_Test, Report level f (U n # args)] = (if f = fmt then [n] else [])"
  by simp_all

lemma Train_print_log:
  "f_log (Train_print S num_step step loss f)
     = f_log f
       @ (if print_each S \<le> print f + 1 \<or> step = num_step - 1
          then [Report kInfo print_fmt [U (step + 1), D (learning_rate f), D loss]] else [])"
  by (simp add: Train_print_def Let_def)

lemma Train_print_effect:
  "report_steps fmt (f_log (Train_print S num_step step loss f))
     = report_steps fmt (f_log f)
       @ (if (print_each S \<le> print f + 1 \<or> step = num_step - 1) \<and> print_fmt = fmt
          then [step + 1] else [])"
  "print (Train_print S num_step step loss f)
     = (if print_each S \<le> print f + 1 \<or> step = num_step - 1 then 0 else print f + 1)"
  "test (Train_print S num_step step loss f) = test f"
  "lr (Train_print S num_step step loss f) = lr f"
proof -
  show "report_steps fmt (f_log (Train_print S num_step step loss f))
     = report_steps fmt (f_log f)
       @ (if (print_each S \<le> print f + 1 \<or> step = num_step - 1) \<and> print_fmt = fmt
          then [step + 1] else [])"
    unfolding Train_print_log report_steps_append
    by (simp only: report_steps_single report_steps.simps split: if_splits) simp
qed (simp_all add: Train_print_def Let_def)

lemma Train_test_log:
  "f_log (Train_test E S num_step step f)
     = f_log f
       @ (if test_each S \<le> test f + 1 \<or> step = num_step - 1
          then [Called_Test, Report kInfo test_fmt
                  [U (step + 1), D (fst (Model_Test E (f_model f) (f_store f)))]]
          else [])"
  by (simp add: Train_test_def Let_def split: prod.splits)

lemma Train_test_effect:
  "report_steps fmt (f_log (Train_test E S num_step step f))
     = report_steps fmt (f_log f)
       @ (if (test_each S \<le> test f + 1 \<or> step = num_step - 1) \<and> test_fmt = fmt
          then [step + 1] else [])"
  "print (Train_test E S num_step step f) = print f"
  "test (Train_test E S num_step step f)
     = (if test_each S \<le> test f + 1 \<or> step = num_step - 1 then 0 else test f + 1)"
  "lr (Train_test E S num_step step f) = lr f"
proof -
  show "report_steps fmt (f_log (Train_test E S num_step step f))
     = report_steps fmt (f_log f)
       @ (if (test_each S \<le> test f + 1 \<or> step = num_step - 1) \<and> test_fmt = fmt
          then [step + 1] else [])"
    unfolding Train_test_log report_steps_append
    by (simp only: report_steps_single report_steps.simps split: if_splits) simp
qed (simp_all add: Train_test_def Let_def split: prod.splits)

lemma Train_save_log:
  "f_log (snd (Train_save E S num_step step f))
     = f_log f
       @ (if save_each S \<le> save f + 1 \<or> step = num_step - 1
          then [Called_Name,
                Called_Save (Model_Name E (f_model f) @ ''_'' @ to_string (unat (step + 1)) @ ''.model'')]
          else [])"
  by (simp add: Train_save_def Let_def split: prod.splits)

lemma Train_save_effect:
  "report_steps fmt (f_log (snd (Train_save E S num_step step f))) = report_steps fmt (f_log f)"
  "print (snd (Train_save E S num_step step f)) = print f"
  "test (snd (Train_save E S num_step step f)) = test f"
  "lr (snd (Train_save E S num_step step f)) = lr f"
proof -
  show "report_steps fmt (f_log (snd (Train_save E S num_step step f))) = report_steps fmt (f_log f)"
    unfolding Train_save_log report_steps_append
    by (simp only: report_steps_single report_steps.simps split: if_splits) simp
qed (simp_all add: Train_save_def Let_def split: prod.splits)

lemma Train_lr_log:
  "f_log (Train_lr S step f)
     = f_log f
       @ (if lr_scale_each S \<le> lr f + 1
          then [Report kInfo lr_fmt
                  [U (step + 1), D (learning_rate f), D (learning_rate f * lr_scale S),
                   D (lr_scale S)]]
          else [])"
  by (simp add: Train_lr_def Let_def)

lemma Train_lr_effect:
  "report_steps fmt (f_log (Train_lr S step f))
     = report_steps fmt (f_log f)
       @ (if lr_scale_each S \<le> lr f + 1 \<and> lr_fmt = fmt then [step + 1] else [])"
  "print (Train_lr S step f) = print f"
  "test (Train_lr S step f) = test f"
  "lr (Train_lr S step f) = (if lr_scale_each S \<le> lr f + 1 then 0 else lr f + 1)"
proof -
  show "report_steps fmt (f_log (Train_lr S step f))
     = report_steps fmt (f_log f)
       @ (if lr_scale_each S \<le> lr f + 1 \<and> lr_fmt = fmt then [step + 1] else [])"
    unfolding Train_lr_log report_steps_append
    by (simp only: report_steps_single report_steps.simps split: if_splits) simp
qed (simp_all add: Train_lr_def Let_def)

lemma Train_step_shape:
  assumes "Train_step E Learn S num_step step f = (ok, f')"
  obtains loss f1 where
    "f_log f1 = f_log f @ [Called_Train, Called_Learn (learning_rate f)]"
    "print f1 = print f" "test f1 = test f" "lr f1 = lr f"
    "ok = fst (Train_save E S num_step step (Train_test E S num_step step
                 (Train_print S num_step step loss f1)))"
    "f' = (if ok
           then Train_lr S step (snd (Train_save E S num_step step (Train_test E S num_step step
                  (Train_print S num_step step loss f1))))
           else snd (Train_save E S num_step step (Train_test E S num_step step
                  (Train_print S num_step step loss f1))))"
proof -
  obtain loss m1 h1 where 1: "Model_Train E (f_model f) (f_store f) = (loss, m1, h1)"
    by (cases "Model_Train E (f_model f) (f_store f)") auto
  obtain m2 h2 where 2: "Learn S m1 h1 (learning_rate f) = (m2, h2)"
    by (cases "Learn S m1 h1 (learning_rate f)") auto
  let ?f1 = "f\<lparr>f_model := m2, f_store := h2,
                f_log := f_log f @ [Called_Train, Called_Learn (learning_rate f)]\<rparr>"
  obtain ok' f4 where 3: "Train_save E S num_step step (Train_test E S num_step step
                 (Train_print S num_step step loss ?f1)) = (ok', f4)"
    by (cases "Train_save E S num_step step (Train_test E S num_step step
                 (Train_print S num_step step loss ?f1))") auto
  have "Train_step E Learn S num_step step f = (if \<not> ok' then (False, f4) else (True, Train_lr S step f4))"
    by (simp add: Train_step_def 1 2 3 del: Frame.simps)
  with assms have "ok = ok'" "f' = (if ok' then Train_lr S step f4 else f4)"
    by (auto split: if_splits)
  then show thesis
    using 3 by (intro that [of ?f1 loss]) simp_all
qed

lemma Train_step_schedule:
  assumes "Train_step E Learn S num_step step f = (ok, f')"
  shows "report_steps print_fmt (f_log f')
         = report_steps print_fmt (f_log f)
           @ (if print_each S \<le> print f + 1 \<or> step = num_step - 1 then [step + 1] else [])"
    and "print f' = (if print_each S \<le> print f + 1 \<or> step = num_step - 1 then 0 else print f + 1)"
    and "report_steps test_fmt (f_log f')
         = report_steps test_fmt (f_log f)
           @ (if test_each S \<le> test f + 1 \<or> step = num_step - 1 then [step + 1] else [])"
    and "test f' = (if test_each S \<le> test f + 1 \<or> step = num_step - 1 then 0 else test f + 1)"
    and "ok \<Longrightarrow> report_steps lr_fmt (f_log f')
         = report_steps lr_fmt (f_log f) @ (if lr_scale_each S \<le> lr f + 1 then [step + 1] else [])"
    and "ok \<Longrightarrow> lr f' = (if lr_scale_each S \<le> lr f + 1 then 0 else lr f + 1)"
proof -
  from assms obtain loss f1 where f1: "f_log f1 = f_log f @ [Called_Train, Called_Learn (learning_rate f)]"
    "print f1 = print f" "test f1 = test f" "lr f1 = lr f"
    and f': "f' = (if ok
           then Train_lr S step (snd (Train_save E S num_step step (Train_test E S num_step step
                  (Train_print S num_step step loss f1))))
           else snd (Train_save E S num_step step (Train_test E S num_step step
                  (Train_print S num_step step loss f1))))"
    by (rule Train_step_shape)
  have r: "report_steps fmt (f_log f1) = report_steps fmt (f_log f)" for fmt
    by (simp only: f1 report_steps_append report_steps_single append_Nil2)
  show "report_steps print_fmt (f_log f')
         = report_steps print_fmt (f_log f)
           @ (if print_each S \<le> print f + 1 \<or> step = num_step - 1 then [step + 1] else [])"
    by (simp add: f' Train_lr_effect Train_save_effect Train_test_effect Train_print_effect
        r f1(2-4) fmt_distinct)
  show "print f' = (if print_each S \<le> print f + 1 \<or> step = num_step - 1 then 0 else print f + 1)"
    by (simp add: f' Train_lr_effect Train_save_effect Train_test_effect Train_print_effect f1(2-4))
  show "report_steps test_fmt (f_log f')
         = report_steps test_fmt (f_log f)
           @ (if test_each S \<le> test f + 1 \<or> step = num_step - 1 then [step + 1] else [])"
    by (simp add: f' Train_lr_effect Train_save_effect Train_test_effect Train_print_effect
        r f1(2-4) fmt_distinct)
  show "test f' = (if test_each S \<le> test f + 1 \<or> step = num_step - 1 then 0 else test f + 1)"
    by (simp add: f' Train_lr_effect Train_save_effect Train_test_effect Train_print_effect f1(2-4))
  show "report_steps lr_fmt (f_log f')
         = report_steps lr_fmt (f_log f) @ (if lr_scale_each S \<le> lr f + 1 then [step + 1] else [])"
    if ok
    using that
    by (simp add: f' Train_lr_effect Train_save_effect Train_test_effect Train_print_effect
        r f1(2-4) fmt_distinct)
  show "lr f' = (if lr_scale_each S \<le> lr f + 1 then 0 else lr f + 1)" if ok
    using that
    by (simp add: f' Train_lr_effect Train_save_effect Train_test_effect Train_print_effect f1(2-4))
qed

subsection \<open>The training run\<close>

lemma Train_setup_fold_config:
  "print_each (fst (fold (\<lambda>i (S, h).
                 case make_shared (new_Mat (msize (deref h (weight S ! i))) False) h of
                   (p, h') \<Rightarrow> (S\<lparr>weight_prev := (weight_prev S)[i := p]\<rparr>, h')) xs (S, h))) = print_each S
   \<and> test_each (fst (fold (\<lambda>i (S, h).
                 case make_shared (new_Mat (msize (deref h (weight S ! i))) False) h of
                   (p, h') \<Rightarrow> (S\<lparr>weight_prev := (weight_prev S)[i := p]\<rparr>, h')) xs (S, h))) = test_each S
   \<and> save_each (fst (fold (\<lambda>i (S, h).
                 case make_shared (new_Mat (msize (deref h (weight S ! i))) False) h of
                   (p, h') \<Rightarrow> (S\<lparr>weight_prev := (weight_prev S)[i := p]\<rparr>, h')) xs (S, h))) = save_each S
   \<and> lr_scale_each (fst (fold (\<lambda>i (S, h).
                 case make_shared (new_Mat (msize (deref h (weight S ! i))) False) h of
                   (p, h') \<Rightarrow> (S\<lparr>weight_prev := (weight_prev S)[i := p]\<rparr>, h')) xs (S, h))) = lr_scale_each S
   \<and> lr_scale (fst (fold (\<lambda>i (S, h).
                 case make_shared (new_Mat (msize (deref h (weight S ! i))) False) h of
                   (p, h') \<Rightarrow> (S\<lparr>weight_prev := (weight_prev S)[i := p]\<rparr>, h')) xs (S, h))) = lr_scale S
   \<and> weight (fst (fold (\<lambda>i (S, h).
                 case make_shared (new_Mat (msize (deref h (weight S ! i))) False) h of
                   (p, h') \<Rightarrow> (S\<lparr>weight_prev := (weight_prev S)[i := p]\<rparr>, h')) xs (S, h))) = weight S"
  by (induction xs arbitrary: S h) (simp_all add: make_shared_def)

lemma Train_setup_config:
  "print_each (fst (Train_setup E m S h)) = print_each S"
  "test_each (fst (Train_setup E m S h)) = test_each S"
  "save_each (fst (Train_setup E m S h)) = save_each S"
  "lr_scale_each (fst (Train_setup E m S h)) = lr_scale_each S"
  "lr_scale (fst (Train_setup E m S h)) = lr_scale S"
  "weight (fst (Train_setup E m S h)) = Model_GetWeight E m []"
  by (simp_all add: Train_setup_def Let_def Train_setup_fold_config)

lemma Train_Some:
  assumes "model M = Some m"
  shows "Train E Learn num_step lrate M
         = (let S1 = fst (Train_setup E m (solver M) (store M));
                h1 = snd (Train_setup E m (solver M) (store M));
                r = Train_loop E Learn S1 num_step 0
                      \<lparr>f_model = m, f_store = h1, f_log = [Called_GetWeight], learning_rate = lrate,
                       print = 0, test = 0, save = 0, lr = 0\<rparr>
            in \<lparr>ret = Returned (fst r),
                after = \<lparr>solver = (if fst r then S1\<lparr>weight := [], weight_prev := []\<rparr> else S1),
                         model = Some (f_model (snd r)), store = f_store (snd r)\<rparr>,
                trace = f_log (snd r)\<rparr>)"
  using assms by (simp add: Train_def Let_def split: prod.splits)

subsection \<open>The loop follows the schedule by step index\<close>

text \<open>
  The counters of the loop and the step index agree: before the iteration of index
  \<open>step\<close> each counter holds \<open>step mod cadence\<close>, so the counter test of the code and
  the index test of the specification choose the same branch, and one iteration of the
  loop is one step of \<open>run_by_index\<close>.
\<close>

lemma Train_step_eq:
  "Train_step E Learn S num_step step f =
     (let (loss, m1, h1) = Model_Train E (f_model f) (f_store f);
          (m2, h2) = Learn S m1 h1 (learning_rate f);
          sv = Train_save E S num_step step (Train_test E S num_step step
                 (Train_print S num_step step loss
                    (f\<lparr>f_model := m2, f_store := h2,
                       f_log := f_log f @ [Called_Train, Called_Learn (learning_rate f)]\<rparr>)))
      in if fst sv then (True, Train_lr S step (snd sv)) else (False, snd sv))"
  by (simp add: Train_step_def Let_def split: prod.splits)

lemma step_by_index_eq:
  "step_by_index E Learn S num_step step r =
     (let (loss, m1, h1) = Model_Train E (r_model r) (r_store r);
          (m2, h2) = Learn S m1 h1 (r_rate r);
          sv = save_by_index E S num_step step (test_by_index E S num_step step
                 (print_by_index S num_step step loss
                    (r\<lparr>r_model := m2, r_store := h2,
                       r_log := r_log r @ [Called_Train, Called_Learn (r_rate r)]\<rparr>)))
      in if fst sv then (True, decay_by_index S step (snd sv)) else (False, snd sv))"
  by (simp add: step_by_index_def Let_def split: prod.splits)

text \<open>Each block of the loop against the block of the run by index.\<close>

lemma Train_print_refines:
  assumes "print_each S \<le> print f + 1 \<or> step = num_step - 1 \<longleftrightarrow> fires (print_each S) num_step step"
  shows "run_of (Train_print S num_step step loss f) = print_by_index S num_step step loss (run_of f)"
  using assms by (simp add: Train_print_def print_by_index_def run_of_def Let_def)

lemma Train_test_refines:
  assumes "test_each S \<le> test f + 1 \<or> step = num_step - 1 \<longleftrightarrow> fires (test_each S) num_step step"
  shows "run_of (Train_test E S num_step step f) = test_by_index E S num_step step (run_of f)"
  using assms by (simp add: Train_test_def test_by_index_def run_of_def Let_def split: prod.splits)

lemma Train_save_refines:
  assumes "save_each S \<le> save f + 1 \<or> step = num_step - 1 \<longleftrightarrow> fires (save_each S) num_step step"
  shows "fst (Train_save E S num_step step f) = fst (save_by_index E S num_step step (run_of f))"
    and "run_of (snd (Train_save E S num_step step f)) = snd (save_by_index E S num_step step (run_of f))"
  using assms by (simp_all add: Train_save_def save_by_index_def run_of_def Let_def split: prod.splits)

lemma Train_lr_refines:
  assumes "lr_scale_each S \<le> lr f + 1 \<longleftrightarrow> decays (lr_scale_each S) step"
  shows "run_of (Train_lr S step f) = decay_by_index S step (run_of f)"
  using assms by (simp add: Train_lr_def decay_by_index_def run_of_def Let_def)

lemma Train_save_counter:
  "save (Train_print S num_step step loss f) = save f"
  "save (Train_test E S num_step step f) = save f"
  "save (snd (Train_save E S num_step step f))
     = (if (save_each S \<le> save f + 1 \<or> step = num_step - 1) \<and> fst (Train_save E S num_step step f)
        then 0 else save f + 1)"
  "save (Train_lr S step f) = save f"
  by (simp_all add: Train_print_def Train_test_def Train_save_def Train_lr_def Let_def
      split: prod.splits)

lemma fires_counter:
  fixes c p step :: "32 word"
  assumes "1 \<le> c" "unat p = unat step mod unat c" "step < num_step"
  shows "c \<le> p + 1 \<or> step = num_step - 1 \<longleftrightarrow> fires c num_step step"
  using counter_fires [OF assms] by (simp add: fires_def)

lemma decays_counter:
  fixes c p step :: "32 word"
  assumes "1 \<le> c" "unat p = unat step mod unat c" "step < num_step"
  shows "c \<le> p + 1 \<longleftrightarrow> decays c step"
  using counter_fires [OF assms] by (simp add: decays_def)

lemma Train_step_refines:
  assumes step: "Train_step E Learn S num_step step f = (ok, f')" and lt: "step < num_step"
    and c: "1 \<le> print_each S" "1 \<le> test_each S" "1 \<le> save_each S" "1 \<le> lr_scale_each S"
    and inv: "unat (print f) = unat step mod unat (print_each S)"
      "unat (test f) = unat step mod unat (test_each S)"
      "unat (save f) = unat step mod unat (save_each S)"
      "unat (lr f) = unat step mod unat (lr_scale_each S)"
  shows "step_by_index E Learn S num_step step (run_of f) = (ok, run_of f')"
    and "ok \<Longrightarrow> step + 1 < num_step \<Longrightarrow>
           unat (print f') = unat (step + 1) mod unat (print_each S)
         \<and> unat (test f') = unat (step + 1) mod unat (test_each S)
         \<and> unat (save f') = unat (step + 1) mod unat (save_each S)
         \<and> unat (lr f') = unat (step + 1) mod unat (lr_scale_each S)"
proof -
  obtain loss m1 h1 where tr: "Model_Train E (f_model f) (f_store f) = (loss, m1, h1)"
    by (cases "Model_Train E (f_model f) (f_store f)") auto
  obtain m2 h2 where le: "Learn S m1 h1 (learning_rate f) = (m2, h2)"
    by (cases "Learn S m1 h1 (learning_rate f)") auto
  define f1 where "f1 = f\<lparr>f_model := m2, f_store := h2,
                       f_log := f_log f @ [Called_Train, Called_Learn (learning_rate f)]\<rparr>"
  define f2 where "f2 = Train_print S num_step step loss f1"
  define f3 where "f3 = Train_test E S num_step step f2"
  define sv where "sv = Train_save E S num_step step f3"
  define r1 where "r1 = (run_of f)\<lparr>r_model := m2, r_store := h2,
                       r_log := r_log (run_of f) @ [Called_Train, Called_Learn (r_rate (run_of f))]\<rparr>"
  have code: "Train_step E Learn S num_step step f
              = (if fst sv then (True, Train_lr S step (snd sv)) else (False, snd sv))"
    by (simp add: Train_step_eq tr le Let_def sv_def f3_def f2_def f1_def del: Frame.simps)
  have r1: "run_of f1 = r1"
    by (simp add: run_of_def f1_def r1_def)
  have cnt1: "print f1 = print f" "test f1 = test f" "save f1 = save f" "lr f1 = lr f"
    by (simp_all add: f1_def)
  have cnt2: "test f2 = test f" "save f2 = save f" "lr f2 = lr f"
    "print f2 = (if print_each S \<le> print f + 1 \<or> step = num_step - 1 then 0 else print f + 1)"
    by (simp_all add: f2_def Train_print_effect Train_save_counter cnt1)
  have cnt3: "save f3 = save f" "lr f3 = lr f" "print f3 = print f2"
    "test f3 = (if test_each S \<le> test f + 1 \<or> step = num_step - 1 then 0 else test f + 1)"
    by (simp_all add: f3_def Train_test_effect Train_save_counter cnt2)
  have cnt4: "lr (snd sv) = lr f" "print (snd sv) = print f2" "test (snd sv) = test f3"
    "save (snd sv) = (if (save_each S \<le> save f + 1 \<or> step = num_step - 1) \<and> fst sv
                      then 0 else save f + 1)"
    by (simp_all add: sv_def Train_save_effect Train_save_counter cnt3)
  have p: "run_of f2 = print_by_index S num_step step loss r1"
    unfolding f2_def r1 [symmetric]
    by (rule Train_print_refines) (simp add: cnt1 fires_counter [OF c(1) inv(1) lt])
  have t: "run_of f3 = test_by_index E S num_step step (run_of f2)"
    unfolding f3_def
    by (rule Train_test_refines) (simp add: cnt2 fires_counter [OF c(2) inv(2) lt])
  have s: "fst sv = fst (save_by_index E S num_step step (run_of f3))"
    "run_of (snd sv) = snd (save_by_index E S num_step step (run_of f3))"
    unfolding sv_def
    by (rule Train_save_refines, simp add: cnt3 fires_counter [OF c(3) inv(3) lt])+
  have d: "run_of (Train_lr S step (snd sv)) = decay_by_index S step (run_of (snd sv))"
    by (rule Train_lr_refines) (simp add: cnt4 decays_counter [OF c(4) inv(4) lt])
  have tr': "Model_Train E (r_model (run_of f)) (r_store (run_of f)) = (loss, m1, h1)"
    and le': "Learn S m1 h1 (r_rate (run_of f)) = (m2, h2)"
    by (simp_all add: run_of_def tr le)
  have chain: "test_by_index E S num_step step (print_by_index S num_step step loss r1) = run_of f3"
    by (simp only: t p)
  have sv': "save_by_index E S num_step step (run_of f3) = (fst sv, run_of (snd sv))"
    by (simp add: s prod_eq_iff)
  have "step_by_index E Learn S num_step step (run_of f)
        = (let sv' = save_by_index E S num_step step
                       (test_by_index E S num_step step (print_by_index S num_step step loss r1))
           in if fst sv' then (True, decay_by_index S step (snd sv')) else (False, snd sv'))"
    by (simp only: step_by_index_eq [of E Learn S num_step step "run_of f"] tr' le' Let_def
        prod.case r1_def)
  then have spec: "step_by_index E Learn S num_step step (run_of f)
              = (if fst sv then (True, run_of (Train_lr S step (snd sv))) else (False, run_of (snd sv)))"
    by (simp only: chain sv' Let_def fst_conv snd_conv d)
  from step code have ok: "ok = fst sv" and f': "f' = (if fst sv then Train_lr S step (snd sv) else snd sv)"
    by (auto split: if_splits)
  show "step_by_index E Learn S num_step step (run_of f) = (ok, run_of f')"
    by (simp add: spec ok f')
  show "unat (print f') = unat (step + 1) mod unat (print_each S)
         \<and> unat (test f') = unat (step + 1) mod unat (test_each S)
         \<and> unat (save f') = unat (step + 1) mod unat (save_each S)
         \<and> unat (lr f') = unat (step + 1) mod unat (lr_scale_each S)"
    if "ok" "step + 1 < num_step"
  proof -
    from that(2) have nf: "step \<noteq> num_step - 1" by auto
    from that(1) ok have sv: "fst sv" by simp
    have next_counters: "print f' = (if print_each S \<le> print f + 1 then 0 else print f + 1)"
      "test f' = (if test_each S \<le> test f + 1 then 0 else test f + 1)"
      "save f' = (if save_each S \<le> save f + 1 then 0 else save f + 1)"
      "lr f' = (if lr_scale_each S \<le> lr f + 1 then 0 else lr f + 1)"
      using nf sv by (simp_all add: f' Train_lr_effect Train_save_counter cnt4 cnt3 cnt2)
    show ?thesis
      by (simp only: next_counters counter_next [OF c(1) inv(1) lt] counter_next [OF c(2) inv(2) lt]
          counter_next [OF c(3) inv(3) lt] counter_next [OF c(4) inv(4) lt] simp_thms)
  qed
qed

lemma Train_loop_refines:
  assumes "Train_loop E Learn S num_step step f = (ok, f')"
    and "1 \<le> print_each S" "1 \<le> test_each S" "1 \<le> save_each S" "1 \<le> lr_scale_each S"
    and "step < num_step \<longrightarrow>
           unat (print f) = unat step mod unat (print_each S)
         \<and> unat (test f) = unat step mod unat (test_each S)
         \<and> unat (save f) = unat step mod unat (save_each S)
         \<and> unat (lr f) = unat step mod unat (lr_scale_each S)"
  shows "run_by_index E Learn S num_step (map of_nat [unat step..<unat num_step]) (run_of f)
         = (ok, run_of f')"
  using assms
proof (induction E Learn S num_step step f rule: Train_loop.induct)
  case (1 E Learn S num_step step f)
  show ?case
  proof (cases "step < num_step")
    case False
    then have "unat num_step \<le> unat step"
      by (simp add: word_less_nat_alt)
    moreover from False "1.prems"(1) have "ok" "f' = f"
      by (simp_all add: Train_loop.simps)
    ultimately show ?thesis by simp
  next
    case True
    obtain ok1 f1 where step: "Train_step E Learn S num_step step f = (ok1, f1)"
      by (cases "Train_step E Learn S num_step step f") auto
    note c = "1.prems"(2-5)
    from True "1.prems"(6) have inv: "unat (print f) = unat step mod unat (print_each S)"
      "unat (test f) = unat step mod unat (test_each S)"
      "unat (save f) = unat step mod unat (save_each S)"
      "unat (lr f) = unat step mod unat (lr_scale_each S)"
      by simp_all
    note ref = Train_step_refines [OF step True c inv]
    have upt: "[unat step..<unat num_step] = unat step # [unat (step + 1)..<unat num_step]"
      using True by (simp add: upt_conv_Cons word_less_nat_alt unat_step_Suc [OF True])
    show ?thesis
    proof (cases ok1)
      case False
      with True step "1.prems"(1) have "ok = False" "f' = f1"
        by (simp_all add: Train_loop.simps [of E Learn S num_step step f])
      with False ref(1) show ?thesis
        unfolding upt by simp
    next
      case ok1: True
      with True step "1.prems"(1) have rest: "Train_loop E Learn S num_step (step + 1) f1 = (ok, f')"
        by (simp add: Train_loop.simps [of E Learn S num_step step f])
      have inv': "step + 1 < num_step \<longrightarrow>
           unat (print f1) = unat (step + 1) mod unat (print_each S)
         \<and> unat (test f1) = unat (step + 1) mod unat (test_each S)
         \<and> unat (save f1) = unat (step + 1) mod unat (save_each S)
         \<and> unat (lr f1) = unat (step + 1) mod unat (lr_scale_each S)"
        using ref(2) ok1 by blast
      have okT: "ok1 = True" using ok1 by simp
      note IH = "1.IH" [OF True step [symmetric] okT rest c inv']
      show ?thesis
        unfolding upt using IH ref(1) ok1 by simp
    qed
  qed
qed

subsection \<open>What a run by step index leaves in the trace\<close>

lemma learn_rates_append: "learn_rates (xs @ ys) = learn_rates xs @ learn_rates ys"
  by (induction xs rule: learn_rates.induct) simp_all

lemma steps_reached_append: "steps_reached (xs @ ys) = steps_reached xs + steps_reached ys"
  by (simp add: steps_reached_def)

lemma tests_made_append: "tests_made (xs @ ys) = tests_made xs + tests_made ys"
  by (simp add: tests_made_def)

lemmas observed_append = report_steps_append learn_rates_append steps_reached_append
  tests_made_append

text \<open>The trace and the rate through the blocks of the run by index.\<close>

lemma print_by_index_log:
  "r_log (print_by_index S num_step step loss r)
     = r_log r @ (if fires (print_each S) num_step step
                  then [Report kInfo print_fmt [U (step + 1), D (r_rate r), D loss]] else [])"
  "r_rate (print_by_index S num_step step loss r) = r_rate r"
  by (simp_all add: print_by_index_def)

lemma test_by_index_log:
  "r_log (test_by_index E S num_step step r)
     = r_log r @ (if fires (test_each S) num_step step
                  then [Called_Test, Report kInfo test_fmt
                          [U (step + 1), D (fst (Model_Test E (r_model r) (r_store r)))]]
                  else [])"
  "r_rate (test_by_index E S num_step step r) = r_rate r"
  by (simp_all add: test_by_index_def split: prod.splits)

lemma save_by_index_log:
  "r_log (snd (save_by_index E S num_step step r))
     = r_log r @ (if fires (save_each S) num_step step
                  then [Called_Name,
                        Called_Save (Model_Name E (r_model r) @ ''_'' @ to_string (unat (step + 1))
                                     @ ''.model'')]
                  else [])"
  "r_rate (snd (save_by_index E S num_step step r)) = r_rate r"
  by (simp_all add: save_by_index_def Let_def split: prod.splits)

lemma decay_by_index_log:
  "r_log (decay_by_index S step r)
     = r_log r @ (if decays (lr_scale_each S) step
                  then [Report kInfo lr_fmt
                          [U (step + 1), D (r_rate r), D (r_rate r * lr_scale S), D (lr_scale S)]]
                  else [])"
  "r_rate (decay_by_index S step r)
     = (if decays (lr_scale_each S) step then r_rate r * lr_scale S else r_rate r)"
  by (simp_all add: decay_by_index_def)

text \<open>What one step of the run by index adds to the trace.\<close>

lemma step_by_index_log:
  assumes "step_by_index E Learn S num_step step r = (ok, r')"
  obtains loss accuracy file_name where
    "r_log r' = r_log r @ [Called_Train, Called_Learn (r_rate r)]
       @ (if fires (print_each S) num_step step
          then [Report kInfo print_fmt [U (step + 1), D (r_rate r), D loss]] else [])
       @ (if fires (test_each S) num_step step
          then [Called_Test, Report kInfo test_fmt [U (step + 1), D accuracy]] else [])
       @ (if fires (save_each S) num_step step
          then [Called_Name, Called_Save file_name] else [])
       @ (if ok \<and> decays (lr_scale_each S) step
          then [Report kInfo lr_fmt
                  [U (step + 1), D (r_rate r), D (r_rate r * lr_scale S), D (lr_scale S)]]
          else [])"
    "r_rate r' = (if ok \<and> decays (lr_scale_each S) step then r_rate r * lr_scale S else r_rate r)"
proof -
  obtain loss m1 h1 where tr: "Model_Train E (r_model r) (r_store r) = (loss, m1, h1)"
    by (cases "Model_Train E (r_model r) (r_store r)") auto
  obtain m2 h2 where le: "Learn S m1 h1 (r_rate r) = (m2, h2)"
    by (cases "Learn S m1 h1 (r_rate r)") auto
  define r1 where "r1 = r\<lparr>r_model := m2, r_store := h2,
                       r_log := r_log r @ [Called_Train, Called_Learn (r_rate r)]\<rparr>"
  define r2 where "r2 = print_by_index S num_step step loss r1"
  define r3 where "r3 = test_by_index E S num_step step r2"
  define sv where "sv = save_by_index E S num_step step r3"
  have "step_by_index E Learn S num_step step r
        = (if fst sv then (True, decay_by_index S step (snd sv)) else (False, snd sv))"
    by (simp only: step_by_index_eq [of E Learn S num_step step r] tr le Let_def prod.case
        r1_def r2_def r3_def sv_def)
  with assms have ok: "ok = fst sv" and r': "r' = (if fst sv then decay_by_index S step (snd sv) else snd sv)"
    by (auto split: if_splits)
  have l1: "r_log r1 = r_log r @ [Called_Train, Called_Learn (r_rate r)]" "r_rate r1 = r_rate r"
    by (simp_all add: r1_def)
  have l2: "r_log r2 = r_log r1 @ (if fires (print_each S) num_step step
                  then [Report kInfo print_fmt [U (step + 1), D (r_rate r), D loss]] else [])"
    "r_rate r2 = r_rate r"
    by (simp_all only: r2_def print_by_index_log l1)
  have l3: "r_log r3 = r_log r2 @ (if fires (test_each S) num_step step
                  then [Called_Test, Report kInfo test_fmt
                          [U (step + 1), D (fst (Model_Test E (r_model r2) (r_store r2)))]]
                  else [])"
    "r_rate r3 = r_rate r"
    by (simp_all only: r3_def test_by_index_log l2)
  have l4: "r_log (snd sv) = r_log r3 @ (if fires (save_each S) num_step step
                  then [Called_Name,
                        Called_Save (Model_Name E (r_model r3) @ ''_'' @ to_string (unat (step + 1))
                                     @ ''.model'')]
                  else [])"
    "r_rate (snd sv) = r_rate r"
    by (simp_all only: sv_def save_by_index_log l3)
  show thesis
  proof (rule that [of loss "fst (Model_Test E (r_model r2) (r_store r2))"
        "Model_Name E (r_model r3) @ ''_'' @ to_string (unat (step + 1)) @ ''.model''"])
    show "r_log r' = r_log r @ [Called_Train, Called_Learn (r_rate r)]
       @ (if fires (print_each S) num_step step
          then [Report kInfo print_fmt [U (step + 1), D (r_rate r), D loss]] else [])
       @ (if fires (test_each S) num_step step
          then [Called_Test, Report kInfo test_fmt
                  [U (step + 1), D (fst (Model_Test E (r_model r2) (r_store r2)))]] else [])
       @ (if fires (save_each S) num_step step
          then [Called_Name, Called_Save (Model_Name E (r_model r3) @ ''_''
                  @ to_string (unat (step + 1)) @ ''.model'')] else [])
       @ (if ok \<and> decays (lr_scale_each S) step
          then [Report kInfo lr_fmt
                  [U (step + 1), D (r_rate r), D (r_rate r * lr_scale S), D (lr_scale S)]]
          else [])"
      by (cases "fst sv") (simp_all only: r' ok if_True if_False decay_by_index_log l4 l3 l2 l1
          append_assoc simp_thms append_Nil2)
    show "r_rate r' = (if ok \<and> decays (lr_scale_each S) step then r_rate r * lr_scale S else r_rate r)"
      by (cases "fst sv") (simp_all only: r' ok if_True if_False decay_by_index_log l4 simp_thms)
  qed
qed

lemma step_by_index_observed:
  assumes "step_by_index E Learn S num_step step r = (ok, r')"
  shows "steps_reached (r_log r') = steps_reached (r_log r) + 1"
    and "learn_rates (r_log r') = learn_rates (r_log r) @ [r_rate r]"
    and "report_steps print_fmt (r_log r')
         = report_steps print_fmt (r_log r) @ (if fires (print_each S) num_step step then [step + 1] else [])"
    and "report_steps test_fmt (r_log r')
         = report_steps test_fmt (r_log r) @ (if fires (test_each S) num_step step then [step + 1] else [])"
    and "tests_made (r_log r')
         = tests_made (r_log r) + (if fires (test_each S) num_step step then 1 else 0)"
    and "report_steps lr_fmt (r_log r')
         = report_steps lr_fmt (r_log r)
           @ (if ok \<and> decays (lr_scale_each S) step then [step + 1] else [])"
    and "r_rate r' = (if ok \<and> decays (lr_scale_each S) step then r_rate r * lr_scale S else r_rate r)"
proof -
  from assms obtain loss accuracy file_name where
    log: "r_log r' = r_log r @ [Called_Train, Called_Learn (r_rate r)]
       @ (if fires (print_each S) num_step step
          then [Report kInfo print_fmt [U (step + 1), D (r_rate r), D loss]] else [])
       @ (if fires (test_each S) num_step step
          then [Called_Test, Report kInfo test_fmt [U (step + 1), D accuracy]] else [])
       @ (if fires (save_each S) num_step step
          then [Called_Name, Called_Save file_name] else [])
       @ (if ok \<and> decays (lr_scale_each S) step
          then [Report kInfo lr_fmt
                  [U (step + 1), D (r_rate r), D (r_rate r * lr_scale S), D (lr_scale S)]]
          else [])"
    and rate: "r_rate r' = (if ok \<and> decays (lr_scale_each S) step then r_rate r * lr_scale S else r_rate r)"
    by (rule step_by_index_log)
  show "steps_reached (r_log r') = steps_reached (r_log r) + 1"
    unfolding log by (simp add: steps_reached_def)
  show "learn_rates (r_log r') = learn_rates (r_log r) @ [r_rate r]"
    unfolding log by (simp add: learn_rates_append)
  show "report_steps print_fmt (r_log r')
         = report_steps print_fmt (r_log r) @ (if fires (print_each S) num_step step then [step + 1] else [])"
    unfolding log by (simp add: report_steps_append fmt_distinct)
  show "report_steps test_fmt (r_log r')
         = report_steps test_fmt (r_log r) @ (if fires (test_each S) num_step step then [step + 1] else [])"
    unfolding log by (simp add: report_steps_append fmt_distinct)
  show "tests_made (r_log r')
         = tests_made (r_log r) + (if fires (test_each S) num_step step then 1 else 0)"
    unfolding log by (simp add: tests_made_def)
  show "report_steps lr_fmt (r_log r')
         = report_steps lr_fmt (r_log r)
           @ (if ok \<and> decays (lr_scale_each S) step then [step + 1] else [])"
    unfolding log by (simp add: report_steps_append fmt_distinct)
  show "r_rate r' = (if ok \<and> decays (lr_scale_each S) step then r_rate r * lr_scale S else r_rate r)"
    by (rule rate)
qed

lemma run_by_index_observed:
  assumes "run_by_index E Learn S num_step ss r = (ok, r')"
  shows "\<exists>k. steps_reached (r_log r') = steps_reached (r_log r) + k
           \<and> k \<le> length ss \<and> (ok \<longrightarrow> k = length ss) \<and> (\<not> ok \<longrightarrow> 0 < k)
           \<and> report_steps print_fmt (r_log r')
               = report_steps print_fmt (r_log r)
                 @ map (\<lambda>s. s + 1) (filter (fires (print_each S) num_step) (take k ss))
           \<and> report_steps test_fmt (r_log r')
               = report_steps test_fmt (r_log r)
                 @ map (\<lambda>s. s + 1) (filter (fires (test_each S) num_step) (take k ss))
           \<and> tests_made (r_log r')
               = tests_made (r_log r) + length (filter (fires (test_each S) num_step) (take k ss))
           \<and> report_steps lr_fmt (r_log r')
               = report_steps lr_fmt (r_log r)
                 @ map (\<lambda>s. s + 1)
                     (filter (decays (lr_scale_each S)) (take (if ok then k else k - 1) ss))
           \<and> learn_rates (r_log r')
               = learn_rates (r_log r)
                 @ rates_by_index (lr_scale_each S) (lr_scale S) (r_rate r) (take k ss)"
  using assms
proof (induction ss arbitrary: r)
  case Nil
  then have "ok" "r' = r" by simp_all
  then show ?case by simp
next
  case (Cons s ss)
  obtain ok1 r1 where step: "step_by_index E Learn S num_step s r = (ok1, r1)"
    by (cases "step_by_index E Learn S num_step s r") auto
  note obs = step_by_index_observed [OF step]
  show ?case
  proof (cases ok1)
    case False
    with step Cons.prems have "\<not> ok" "r' = r1" by simp_all
    with False obs show ?thesis
      by (intro exI [of _ 1]) simp
  next
    case True
    with step Cons.prems have "run_by_index E Learn S num_step ss r1 = (ok, r')" by simp
    from Cons.IH [OF this] obtain k where
      k: "steps_reached (r_log r') = steps_reached (r_log r1) + k"
        "k \<le> length ss" "ok \<longrightarrow> k = length ss" "\<not> ok \<longrightarrow> 0 < k"
      and p: "report_steps print_fmt (r_log r')
               = report_steps print_fmt (r_log r1)
                 @ map (\<lambda>s. s + 1) (filter (fires (print_each S) num_step) (take k ss))"
      and t: "report_steps test_fmt (r_log r')
               = report_steps test_fmt (r_log r1)
                 @ map (\<lambda>s. s + 1) (filter (fires (test_each S) num_step) (take k ss))"
        "tests_made (r_log r')
               = tests_made (r_log r1) + length (filter (fires (test_each S) num_step) (take k ss))"
      and l: "report_steps lr_fmt (r_log r')
               = report_steps lr_fmt (r_log r1)
                 @ map (\<lambda>s. s + 1)
                     (filter (decays (lr_scale_each S)) (take (if ok then k else k - 1) ss))"
      and rt: "learn_rates (r_log r')
               = learn_rates (r_log r1)
                 @ rates_by_index (lr_scale_each S) (lr_scale S) (r_rate r1) (take k ss)"
      by blast
    have tk: "take (if ok then Suc k else Suc k - 1) (s # ss)
              = s # take (if ok then k else k - 1) ss"
      using k(4) by (cases ok) (simp_all add: take_Cons')
    show ?thesis
    proof (intro exI [of _ "Suc k"] conjI)
      show "steps_reached (r_log r') = steps_reached (r_log r) + Suc k"
        by (simp add: k obs)
      show "Suc k \<le> length (s # ss)" "ok \<longrightarrow> Suc k = length (s # ss)" "\<not> ok \<longrightarrow> 0 < Suc k"
        using k by simp_all
      show "report_steps print_fmt (r_log r')
               = report_steps print_fmt (r_log r)
                 @ map (\<lambda>s. s + 1) (filter (fires (print_each S) num_step) (take (Suc k) (s # ss)))"
        by (simp add: p obs)
      show "report_steps test_fmt (r_log r')
               = report_steps test_fmt (r_log r)
                 @ map (\<lambda>s. s + 1) (filter (fires (test_each S) num_step) (take (Suc k) (s # ss)))"
        by (simp add: t obs)
      show "tests_made (r_log r')
               = tests_made (r_log r)
                 + length (filter (fires (test_each S) num_step) (take (Suc k) (s # ss)))"
        by (simp add: t obs)
      show "report_steps lr_fmt (r_log r')
               = report_steps lr_fmt (r_log r)
                 @ map (\<lambda>s. s + 1)
                     (filter (decays (lr_scale_each S))
                        (take (if ok then Suc k else Suc k - 1) (s # ss)))"
        unfolding tk using True by (simp add: l obs)
      show "learn_rates (r_log r')
               = learn_rates (r_log r)
                 @ rates_by_index (lr_scale_each S) (lr_scale S) (r_rate r) (take (Suc k) (s # ss))"
        using True by (simp add: rt obs)
    qed
  qed
qed

lemma cadence_lists:
  "cadence_or_final cadence num_step = map (\<lambda>s. s + 1) (filter (fires cadence num_step) (steps num_step))"
  "cadence_only cadence num_step = map (\<lambda>s. s + 1) (filter (decays cadence) (steps num_step))"
  by (simp_all add: cadence_or_final_def cadence_only_def fires_def [abs_def] decays_def [abs_def])

text \<open>
  Claim C1, amended. For every run of \<open>Train\<close> on a non-null model with cadences of at
  least 1, whether it completes or a failed checkpoint save aborts it, let \<open>k\<close> be the
  number of steps it reaches (the calls of \<open>model->Train\<close>; all \<open>num_step\<close> of them when
  \<open>Train\<close> returns true, at least one when it returns false). Then, over the step
  indices \<open>0, ..., k - 1\<close>:

    \<^item> the print reports are made exactly at the indices where
      \<open>(step + 1) % print_each == 0\<close> or \<open>step == num_step - 1\<close>, once each and in order;

    \<^item> the test reports are made, and \<open>model->Test\<close> is called, exactly at the indices
      where \<open>(step + 1) % test_each == 0\<close> or \<open>step == num_step - 1\<close>;

    \<^item> the decay fires exactly at the indices where \<open>(step + 1) % lr_scale_each == 0\<close>,
      with no exception for the final step, and not at the index of the failed save: it
      is reported there, and the learning rate that \<open>Learn\<close> receives at each reached
      step is the initial rate multiplied by \<open>lr_scale\<close> once for every earlier index
      where the decay fires;

    \<^item> a run that returns true follows the schedule of the claim over all of
      \<open>0, ..., num_step - 1\<close>;

    \<^item> the whole run (result, trace, model and tensors) is the run driven by the step
      index alone, \<open>run_by_index\<close>;

    \<^item> in every iteration a counter that fires is reset to 0 and one that does not is
      incremented.
\<close>

theorem Train_schedule:
  assumes m: "model M = Some m"
    and c: "1 \<le> print_each (solver M)" "1 \<le> test_each (solver M)" "1 \<le> save_each (solver M)"
      "1 \<le> lr_scale_each (solver M)"
  shows "let R = Train E Learn num_step lrate M;
             k = steps_reached (trace R);
             completed = (if ret R = Returned True then k else k - 1)
         in (ret R = Returned True \<or> ret R = Returned False)
          \<and> k \<le> unat num_step
          \<and> (ret R = Returned True \<longrightarrow> k = unat num_step)
          \<and> (ret R = Returned False \<longrightarrow> 0 < k)
          \<and> report_steps print_fmt (trace R)
              = map (\<lambda>s. s + 1) (filter (fires (print_each (solver M)) num_step) (take k (steps num_step)))
          \<and> report_steps test_fmt (trace R)
              = map (\<lambda>s. s + 1) (filter (fires (test_each (solver M)) num_step) (take k (steps num_step)))
          \<and> tests_made (trace R)
              = length (filter (fires (test_each (solver M)) num_step) (take k (steps num_step)))
          \<and> report_steps lr_fmt (trace R)
              = map (\<lambda>s. s + 1)
                  (filter (decays (lr_scale_each (solver M))) (take completed (steps num_step)))
          \<and> learn_rates (trace R)
              = rates_by_index (lr_scale_each (solver M)) (lr_scale (solver M)) lrate
                  (take k (steps num_step))
          \<and> (ret R = Returned True \<longrightarrow>
                report_steps print_fmt (trace R) = cadence_or_final (print_each (solver M)) num_step
              \<and> report_steps test_fmt (trace R) = cadence_or_final (test_each (solver M)) num_step
              \<and> report_steps lr_fmt (trace R) = cadence_only (lr_scale_each (solver M)) num_step)
          \<and> (let r = run_by_index E Learn (fst (Train_setup E m (solver M) (store M))) num_step
                        (steps num_step)
                        \<lparr>r_model = m, r_store = snd (Train_setup E m (solver M) (store M)),
                         r_log = [Called_GetWeight], r_rate = lrate\<rparr>
              in ret R = Returned (fst r) \<and> trace R = r_log (snd r)
               \<and> model (after R) = Some (r_model (snd r)) \<and> store (after R) = r_store (snd r))
          \<and> (\<forall>S step f continue f'.
                Train_step E Learn S num_step step f = (continue, f') \<longrightarrow>
                  print f' = (if print_each S \<le> print f + 1 \<or> step = num_step - 1 then 0
                              else print f + 1)
                \<and> test f' = (if test_each S \<le> test f + 1 \<or> step = num_step - 1 then 0
                              else test f + 1)
                \<and> (continue \<longrightarrow> lr f' = (if lr_scale_each S \<le> lr f + 1 then 0 else lr f + 1)))"
proof -
  let ?S1 = "fst (Train_setup E m (solver M) (store M))"
  let ?h1 = "snd (Train_setup E m (solver M) (store M))"
  let ?f0 = "\<lparr>f_model = m, f_store = ?h1, f_log = [Called_GetWeight], learning_rate = lrate,
              print = 0, test = 0, save = 0, lr = 0 :: 32 word\<rparr>"
  let ?r0 = "\<lparr>r_model = m, r_store = ?h1, r_log = [Called_GetWeight], r_rate = lrate\<rparr>"
  let ?R = "Train E Learn num_step lrate M"
  let ?k = "steps_reached (trace ?R)"
  obtain ok f where loop: "Train_loop E Learn ?S1 num_step 0 ?f0 = (ok, f)"
    by (cases "Train_loop E Learn ?S1 num_step 0 ?f0") auto
  have R: "ret ?R = Returned ok" "trace ?R = f_log f" "model (after ?R) = Some (f_model f)"
    "store (after ?R) = f_store f"
    by (simp_all add: Train_Some [OF m] Let_def loop)
  have c1: "1 \<le> print_each ?S1" "1 \<le> test_each ?S1" "1 \<le> save_each ?S1" "1 \<le> lr_scale_each ?S1"
    using c by (simp_all add: Train_setup_config)
  have inv: "0 < num_step \<longrightarrow>
           unat (print ?f0) = unat (0 :: 32 word) mod unat (print_each ?S1)
         \<and> unat (test ?f0) = unat (0 :: 32 word) mod unat (test_each ?S1)
         \<and> unat (save ?f0) = unat (0 :: 32 word) mod unat (save_each ?S1)
         \<and> unat (lr ?f0) = unat (0 :: 32 word) mod unat (lr_scale_each ?S1)"
    by simp
  have r0: "run_of ?f0 = ?r0"
    by (simp add: run_of_def)
  from Train_loop_refines [OF loop c1 inv]
  have run: "run_by_index E Learn ?S1 num_step (steps num_step) ?r0 = (ok, run_of f)"
    by (simp add: r0 steps_def)
  have refine: "let r = run_by_index E Learn ?S1 num_step (steps num_step) ?r0
              in ret ?R = Returned (fst r) \<and> trace ?R = r_log (snd r)
               \<and> model (after ?R) = Some (r_model (snd r)) \<and> store (after ?R) = r_store (snd r)"
    by (simp add: run R run_of_def)
  from run_by_index_observed [OF run] obtain k where
    k: "steps_reached (f_log f) = k" "k \<le> unat num_step" "ok \<longrightarrow> k = unat num_step"
      "\<not> ok \<longrightarrow> 0 < k"
    and p: "report_steps print_fmt (f_log f)
               = map (\<lambda>s. s + 1) (filter (fires (print_each (solver M)) num_step) (take k (steps num_step)))"
    and t: "report_steps test_fmt (f_log f)
               = map (\<lambda>s. s + 1) (filter (fires (test_each (solver M)) num_step) (take k (steps num_step)))"
      "tests_made (f_log f)
               = length (filter (fires (test_each (solver M)) num_step) (take k (steps num_step)))"
    and l: "report_steps lr_fmt (f_log f)
               = map (\<lambda>s. s + 1)
                   (filter (decays (lr_scale_each (solver M)))
                      (take (if ok then k else k - 1) (steps num_step)))"
    and rt: "learn_rates (f_log f)
               = rates_by_index (lr_scale_each (solver M)) (lr_scale (solver M)) lrate
                   (take k (steps num_step))"
    by (auto simp: run_of_def steps_reached_def tests_made_def Train_setup_config steps_def)
  have full: "ok \<Longrightarrow> take k (steps num_step) = steps num_step"
    using k(3) by (simp add: steps_def)
  have old: "ret ?R = Returned True \<longrightarrow>
                report_steps print_fmt (trace ?R) = cadence_or_final (print_each (solver M)) num_step
              \<and> report_steps test_fmt (trace ?R) = cadence_or_final (test_each (solver M)) num_step
              \<and> report_steps lr_fmt (trace ?R) = cadence_only (lr_scale_each (solver M)) num_step"
    using p t(1) l by (simp add: R cadence_lists full)
  have reset: "\<forall>S step f continue f'.
                Train_step E Learn S num_step step f = (continue, f') \<longrightarrow>
                  print f' = (if print_each S \<le> print f + 1 \<or> step = num_step - 1 then 0
                              else print f + 1)
                \<and> test f' = (if test_each S \<le> test f + 1 \<or> step = num_step - 1 then 0
                              else test f + 1)
                \<and> (continue \<longrightarrow> lr f' = (if lr_scale_each S \<le> lr f + 1 then 0 else lr f + 1))"
  proof (intro allI impI)
    fix S step f continue f'
    assume "Train_step E Learn S num_step step f = (continue, f')"
    from Train_step_schedule(2,4,6) [OF this]
    show "print f' = (if print_each S \<le> print f + 1 \<or> step = num_step - 1 then 0
                           else print f + 1)
             \<and> test f' = (if test_each S \<le> test f + 1 \<or> step = num_step - 1 then 0
                           else test f + 1)
             \<and> (continue \<longrightarrow> lr f' = (if lr_scale_each S \<le> lr f + 1 then 0 else lr f + 1))"
      by simp
  qed
  have kk: "?k = k" by (simp add: R k)
  have "(ret ?R = Returned True \<or> ret ?R = Returned False)
          \<and> ?k \<le> unat num_step
          \<and> (ret ?R = Returned True \<longrightarrow> ?k = unat num_step)
          \<and> (ret ?R = Returned False \<longrightarrow> 0 < ?k)"
    using k by (cases ok) (simp_all add: R)
  moreover have "report_steps print_fmt (trace ?R)
              = map (\<lambda>s. s + 1) (filter (fires (print_each (solver M)) num_step) (take ?k (steps num_step)))"
    "report_steps test_fmt (trace ?R)
              = map (\<lambda>s. s + 1) (filter (fires (test_each (solver M)) num_step) (take ?k (steps num_step)))"
    "tests_made (trace ?R)
              = length (filter (fires (test_each (solver M)) num_step) (take ?k (steps num_step)))"
    "learn_rates (trace ?R)
              = rates_by_index (lr_scale_each (solver M)) (lr_scale (solver M)) lrate
                  (take ?k (steps num_step))"
    unfolding kk using p t rt by (simp_all add: R)
  moreover have "report_steps lr_fmt (trace ?R)
              = map (\<lambda>s. s + 1)
                  (filter (decays (lr_scale_each (solver M)))
                     (take (if ret ?R = Returned True then ?k else ?k - 1) (steps num_step)))"
    unfolding kk using l by (simp add: R)
  ultimately show ?thesis
    using old refine reset unfolding Let_def by (intro conjI) blast+
qed

text \<open>
  Claim C10, amended. With a null model pointer \<open>Train\<close> makes the single error report,
  at level \<open>kError\<close>, and that report terminates the process (core/log.h), so the
  \<open>return false\<close> after it is not reached. Up to that point nothing else has happened:
  the solver (so \<open>weight_\<close> and \<open>weight_prev_\<close>, whatever they held) and the tensors are
  as they were, and the trace holds no model operation and no other report.
\<close>

theorem Train_null_model:
  assumes "model M = None"
  shows "Train E Learn num_step lrate M
         = \<lparr>ret = Terminated, after = M, trace = [Report kError ''Invalid model'' []]\<rparr>
       \<and> weight (solver (after (Train E Learn num_step lrate M))) = weight (solver M)
       \<and> weight_prev (solver (after (Train E Learn num_step lrate M))) = weight_prev (solver M)"
  using assms by (simp add: Train_def Report_returns_def)

lemma Train_setup_fold_length:
  "length (weight_prev (fst (fold (\<lambda>i (S, h).
                 case make_shared (new_Mat (msize (deref h (weight S ! i))) False) h of
                   (p, h') \<Rightarrow> (S\<lparr>weight_prev := (weight_prev S)[i := p]\<rparr>, h')) xs (S, h))))
   = length (weight_prev S)"
  by (induction xs arbitrary: S h) (simp_all add: make_shared_def)

lemma Train_setup_length:
  "length (weight_prev (fst (Train_setup E m S h))) = length (Model_GetWeight E m [])"
  by (simp add: Train_setup_def Let_def Train_setup_fold_length length_resize)

text \<open>
  Claim C8. On a non-null model \<open>Train\<close> first sets \<open>weight_\<close> to what \<open>GetWeight\<close>
  delivers on the cleared list and gives \<open>weight_prev_\<close> the same length. When the
  weights are live tensors, entry \<open>i\<close> of \<open>weight_prev_\<close> is a freshly allocated tensor
  with the shape of weight \<open>i\<close> and zero data, and the weights themselves are untouched.
  The loop of \<open>Train\<close> starts from this solver and this store.
\<close>

theorem Train_setup_snapshot:
  fixes M :: "('m, 'a::{zero,times}) Machine"
  assumes m: "model M = Some m"
  shows "weight (fst (Train_setup E m (solver M) (store M))) = Model_GetWeight E m []
       \<and> length (weight_prev (fst (Train_setup E m (solver M) (store M))))
           = length (weight (fst (Train_setup E m (solver M) (store M))))
       \<and> ((\<forall>p \<in> set (Model_GetWeight E m []). live (store M) p) \<longrightarrow>
            (\<forall>i < length (Model_GetWeight E m []).
               live (snd (Train_setup E m (solver M) (store M)))
                    (weight_prev (fst (Train_setup E m (solver M) (store M))) ! i)
             \<and> msize (deref (snd (Train_setup E m (solver M) (store M)))
                           (weight_prev (fst (Train_setup E m (solver M) (store M))) ! i))
                 = msize (deref (store M) (Model_GetWeight E m [] ! i))
             \<and> data (deref (snd (Train_setup E m (solver M) (store M)))
                          (weight_prev (fst (Train_setup E m (solver M) (store M))) ! i))
                 = replicate (Size (deref (store M) (Model_GetWeight E m [] ! i))) 0
             \<and> deref (snd (Train_setup E m (solver M) (store M))) (Model_GetWeight E m [] ! i)
                 = deref (store M) (Model_GetWeight E m [] ! i)
             \<and> weight_prev (fst (Train_setup E m (solver M) (store M))) ! i
                 \<notin> set (Model_GetWeight E m []))
          \<and> distinct (weight_prev (fst (Train_setup E m (solver M) (store M)))))
       \<and> (let r = Train_loop E Learn (fst (Train_setup E m (solver M) (store M))) num_step 0
                      \<lparr>f_model = m, f_store = snd (Train_setup E m (solver M) (store M)),
                       f_log = [Called_GetWeight], learning_rate = lrate,
                       print = 0, test = 0, save = 0, lr = 0\<rparr>
          in ret (Train E Learn num_step lrate M) = Returned (fst r)
             \<and> trace (Train E Learn num_step lrate M) = f_log (snd r)
             \<and> store (after (Train E Learn num_step lrate M)) = f_store (snd r))"
proof -
  let ?S = "solver M" and ?h = "store M"
  let ?ws = "Model_GetWeight E m []"
  have lens: "weight (fst (Train_setup E m ?S ?h)) = ?ws"
    "length (weight_prev (fst (Train_setup E m ?S ?h))) = length (weight (fst (Train_setup E m ?S ?h)))"
    by (simp_all add: Train_setup_config Train_setup_length)
  have entries: "(\<forall>i < length ?ws.
             live (snd (Train_setup E m ?S ?h)) (weight_prev (fst (Train_setup E m ?S ?h)) ! i)
           \<and> msize (deref (snd (Train_setup E m ?S ?h)) (weight_prev (fst (Train_setup E m ?S ?h)) ! i))
               = msize (deref ?h (?ws ! i))
           \<and> data (deref (snd (Train_setup E m ?S ?h)) (weight_prev (fst (Train_setup E m ?S ?h)) ! i))
               = replicate (Size (deref ?h (?ws ! i))) 0
           \<and> deref (snd (Train_setup E m ?S ?h)) (?ws ! i) = deref ?h (?ws ! i)
           \<and> weight_prev (fst (Train_setup E m ?S ?h)) ! i \<notin> set ?ws)
         \<and> distinct (weight_prev (fst (Train_setup E m ?S ?h)))"
    if live: "\<forall>p \<in> set ?ws. live ?h p"
  proof -
    have valid: "\<forall>p \<in> set ?ws. \<exists>a. p = Some a \<and> a < length ?h"
      using live by (auto elim: live_SomeE)
    note eq = Train_setup_eq [OF valid, of ?S]
    have fresh: "Some (length ?h + i) \<notin> set ?ws" for i
      using valid by auto
    have "live (snd (Train_setup E m ?S ?h)) (weight_prev (fst (Train_setup E m ?S ?h)) ! i)
           \<and> msize (deref (snd (Train_setup E m ?S ?h)) (weight_prev (fst (Train_setup E m ?S ?h)) ! i))
               = msize (deref ?h (?ws ! i))
           \<and> data (deref (snd (Train_setup E m ?S ?h)) (weight_prev (fst (Train_setup E m ?S ?h)) ! i))
               = replicate (Size (deref ?h (?ws ! i))) 0
           \<and> deref (snd (Train_setup E m ?S ?h)) (?ws ! i) = deref ?h (?ws ! i)
           \<and> weight_prev (fst (Train_setup E m ?S ?h)) ! i \<notin> set ?ws"
      if i: "i < length ?ws" for i
    proof -
      from i valid obtain a where a: "?ws ! i = Some a" "a < length ?h"
        by (metis nth_mem)
      show ?thesis
        using i a fresh [of i]
        by (simp add: eq live_Some deref_def nth_append new_Mat_def Size_def)
    qed
    moreover have "distinct (weight_prev (fst (Train_setup E m ?S ?h)))"
      by (simp add: eq distinct_map inj_on_def)
    ultimately show ?thesis by blast
  qed
  have run: "let r = Train_loop E Learn (fst (Train_setup E m ?S ?h)) num_step 0
                      \<lparr>f_model = m, f_store = snd (Train_setup E m ?S ?h),
                       f_log = [Called_GetWeight], learning_rate = lrate,
                       print = 0, test = 0, save = 0, lr = 0\<rparr>
          in ret (Train E Learn num_step lrate M) = Returned (fst r)
             \<and> trace (Train E Learn num_step lrate M) = f_log (snd r)
             \<and> store (after (Train E Learn num_step lrate M)) = f_store (snd r)"
    by (simp add: Train_Some [OF m] Let_def)
  from lens entries run show ?thesis
    by (intro conjI impI) blast+
qed

lemma Train_save_ok:
  assumes "\<forall>file_name m h. fst (Model_Save E file_name m h)"
  shows "fst (Train_save E S num_step step f)"
  using assms by (simp add: Train_save_def Let_def split: prod.splits) (metis fst_conv)

lemma Train_step_ok:
  assumes "\<forall>file_name m h. fst (Model_Save E file_name m h)"
  shows "fst (Train_step E Learn S num_step step f)"
proof -
  obtain ok f' where step: "Train_step E Learn S num_step step f = (ok, f')"
    by (cases "Train_step E Learn S num_step step f") auto
  then have ok
    by (rule Train_step_shape) (simp add: Train_save_ok [OF assms])
  with step show ?thesis by simp
qed

lemma Train_loop_ok:
  assumes "\<forall>file_name m h. fst (Model_Save E file_name m h)"
  shows "fst (Train_loop E Learn S num_step step f)"
  using assms
proof (induction E Learn S num_step step f rule: Train_loop.induct)
  case (1 E Learn S num_step step f)
  show ?case
  proof (cases "step < num_step")
    case False
    then show ?thesis by (simp add: Train_loop.simps)
  next
    case True
    obtain ok f1 where step: "Train_step E Learn S num_step step f = (ok, f1)"
      by (cases "Train_step E Learn S num_step step f") auto
    with Train_step_ok [OF "1.prems", of Learn S num_step step f] have ok: "ok = True" by simp
    from "1.IH" [OF True step [symmetric] ok "1.prems"] True step ok show ?thesis
      by (simp add: Train_loop.simps [of E Learn S num_step step f])
  qed
qed

lemma Train_ok:
  assumes "model M = Some m" "\<forall>file_name m h. fst (Model_Save E file_name m h)"
  shows "ret (Train E Learn num_step lrate M) = Returned True"
  using assms by (simp add: Train_Some Let_def Train_loop_ok)

lemma Train_snapshots_after:
  assumes "model M = Some m"
  shows "weight (solver (after (Train E Learn num_step lrate M)))
           = (if ret (Train E Learn num_step lrate M) = Returned True then []
              else weight (fst (Train_setup E m (solver M) (store M))))"
    and "weight_prev (solver (after (Train E Learn num_step lrate M)))
           = (if ret (Train E Learn num_step lrate M) = Returned True then []
              else weight_prev (fst (Train_setup E m (solver M) (store M))))"
  using assms by (simp_all add: Train_Some Let_def)

lemmas stub_defs = stub_env_def stub_Learn_def stub_store_def stub_machine_def Solver_def

text \<open>
  Two runs of ten steps. With cadences 3 (print), 4 (test), 100 (save) and 5 (learning
  rate) and saves that succeed, the run completes. With cadences 2, 3, 4 and 2 and saves
  that fail, the save of step index 3 aborts the run: four steps are reached, and the
  decay due at index 3 does not happen.
\<close>

theorem Train_schedule_witness:
  "model (stub_machine (Solver 3 4 100 5 (1 / 2)) (Some ())) = Some ()
   \<and> ret (Train (stub_env True) stub_Learn 10 1 (stub_machine (Solver 3 4 100 5 (1 / 2)) (Some ())))
       = Returned True
   \<and> steps_reached
        (trace (Train (stub_env True) stub_Learn 10 1 (stub_machine (Solver 3 4 100 5 (1 / 2)) (Some ()))))
      = 10
   \<and> report_steps print_fmt
        (trace (Train (stub_env True) stub_Learn 10 1 (stub_machine (Solver 3 4 100 5 (1 / 2)) (Some ()))))
      = [3, 6, 9, 10]
   \<and> report_steps test_fmt
        (trace (Train (stub_env True) stub_Learn 10 1 (stub_machine (Solver 3 4 100 5 (1 / 2)) (Some ()))))
      = [4, 8, 10]
   \<and> tests_made
        (trace (Train (stub_env True) stub_Learn 10 1 (stub_machine (Solver 3 4 100 5 (1 / 2)) (Some ()))))
      = 3
   \<and> report_steps lr_fmt
        (trace (Train (stub_env True) stub_Learn 10 1 (stub_machine (Solver 3 4 100 5 (1 / 2)) (Some ()))))
      = [5, 10]
   \<and> learn_rates
        (trace (Train (stub_env True) stub_Learn 10 1 (stub_machine (Solver 3 4 100 5 (1 / 2)) (Some ()))))
      = [1, 1, 1, 1, 1, 1 / 2, 1 / 2, 1 / 2, 1 / 2, 1 / 2]
   \<and> model (stub_machine (Solver 2 3 4 2 (1 / 2)) (Some ())) = Some ()
   \<and> ret (Train (stub_env False) stub_Learn 10 1 (stub_machine (Solver 2 3 4 2 (1 / 2)) (Some ())))
       = Returned False
   \<and> steps_reached
        (trace (Train (stub_env False) stub_Learn 10 1 (stub_machine (Solver 2 3 4 2 (1 / 2)) (Some ()))))
      = 4
   \<and> report_steps print_fmt
        (trace (Train (stub_env False) stub_Learn 10 1 (stub_machine (Solver 2 3 4 2 (1 / 2)) (Some ()))))
      = [2, 4]
   \<and> report_steps test_fmt
        (trace (Train (stub_env False) stub_Learn 10 1 (stub_machine (Solver 2 3 4 2 (1 / 2)) (Some ()))))
      = [3]
   \<and> tests_made
        (trace (Train (stub_env False) stub_Learn 10 1 (stub_machine (Solver 2 3 4 2 (1 / 2)) (Some ()))))
      = 1
   \<and> report_steps lr_fmt
        (trace (Train (stub_env False) stub_Learn 10 1 (stub_machine (Solver 2 3 4 2 (1 / 2)) (Some ()))))
      = [2]
   \<and> learn_rates
        (trace (Train (stub_env False) stub_Learn 10 1 (stub_machine (Solver 2 3 4 2 (1 / 2)) (Some ()))))
      = [1, 1, 1 / 2, 1 / 2]"
proof -
  let ?M = "stub_machine (Solver 3 4 100 5 (1 / 2)) (Some ())"
  let ?R = "Train (stub_env True) stub_Learn 10 1 ?M"
  let ?N = "stub_machine (Solver 2 3 4 2 (1 / 2)) (Some ())"
  let ?Q = "Train (stub_env False) stub_Learn 10 1 ?N"
  have m: "model ?M = Some ()"
    by (simp add: stub_defs)
  have ok: "ret ?R = Returned True"
    by (rule Train_ok [OF m]) (simp add: stub_defs)
  have c: "1 \<le> print_each (solver ?M)" "1 \<le> test_each (solver ?M)" "1 \<le> save_each (solver ?M)"
    "1 \<le> lr_scale_each (solver ?M)"
    by (simp_all add: stub_defs)
  note T = Train_schedule [where M = ?M and m = "()" and E = "stub_env True" and Learn = stub_Learn
      and num_step = 10 and lrate = 1, OF m c, unfolded Let_def]
  note T3 = T [THEN conjunct2, THEN conjunct2, THEN conjunct1]
  note T5 = T [THEN conjunct2, THEN conjunct2, THEN conjunct2, THEN conjunct2]
  have k: "steps_reached (trace ?R) = 10"
    using T3 ok by simp
  have s: "map (\<lambda>s. s + 1) (filter (fires (print_each (solver ?M)) 10) (take 10 (steps 10)))
             = [3, 6, 9, 10]"
    "map (\<lambda>s. s + 1) (filter (fires (test_each (solver ?M)) 10) (take 10 (steps 10))) = [4, 8, 10]"
    "length (filter (fires (test_each (solver ?M)) 10) (take 10 (steps 10))) = 3"
    "map (\<lambda>s. s + 1) (filter (decays (lr_scale_each (solver ?M))) (take 10 (steps 10))) = [5, 10]"
    "rates_by_index (lr_scale_each (solver ?M)) (lr_scale (solver ?M)) 1 (take 10 (steps 10))
       = [1, 1, 1, 1, 1, 1 / 2, 1 / 2, 1 / 2, 1 / 2, 1 / 2 :: real]"
    by code_simp+
  have first: "report_steps print_fmt (trace ?R) = [3, 6, 9, 10]"
    "report_steps test_fmt (trace ?R) = [4, 8, 10]"
    "tests_made (trace ?R) = 3"
    "report_steps lr_fmt (trace ?R) = [5, 10]"
    "learn_rates (trace ?R) = [1, 1, 1, 1, 1, 1 / 2, 1 / 2, 1 / 2, 1 / 2, 1 / 2]"
    using T5 [THEN conjunct1] T5 [THEN conjunct2, THEN conjunct1]
      T5 [THEN conjunct2, THEN conjunct2, THEN conjunct1]
      T5 [THEN conjunct2, THEN conjunct2, THEN conjunct2, THEN conjunct1]
      T5 [THEN conjunct2, THEN conjunct2, THEN conjunct2, THEN conjunct2, THEN conjunct1]
    unfolding k ok by (simp_all add: s)
  have n: "model ?N = Some ()"
    by (simp add: stub_defs)
  have d: "1 \<le> print_each (solver ?N)" "1 \<le> test_each (solver ?N)" "1 \<le> save_each (solver ?N)"
    "1 \<le> lr_scale_each (solver ?N)"
    by (simp_all add: stub_defs)
  note U = Train_schedule [where M = ?N and m = "()" and E = "stub_env False" and Learn = stub_Learn
      and num_step = 10 and lrate = 1, OF n d, unfolded Let_def]
  note U5 = U [THEN conjunct2, THEN conjunct2, THEN conjunct2, THEN conjunct2]
  have q: "ret ?Q = Returned False" "steps_reached (trace ?Q) = 4"
    by code_simp+
  have a: "map (\<lambda>s. s + 1) (filter (fires (print_each (solver ?N)) 10) (take 4 (steps 10))) = [2, 4]"
    "map (\<lambda>s. s + 1) (filter (fires (test_each (solver ?N)) 10) (take 4 (steps 10))) = [3]"
    "length (filter (fires (test_each (solver ?N)) 10) (take 4 (steps 10))) = 1"
    "map (\<lambda>s. s + 1) (filter (decays (lr_scale_each (solver ?N))) (take 3 (steps 10))) = [2]"
    "rates_by_index (lr_scale_each (solver ?N)) (lr_scale (solver ?N)) 1 (take 4 (steps 10))
       = [1, 1, 1 / 2, 1 / 2 :: real]"
    by code_simp+
  have second: "report_steps print_fmt (trace ?Q) = [2, 4]"
    "report_steps test_fmt (trace ?Q) = [3]"
    "tests_made (trace ?Q) = 1"
    "report_steps lr_fmt (trace ?Q) = [2]"
    "learn_rates (trace ?Q) = [1, 1, 1 / 2, 1 / 2]"
    using U5 [THEN conjunct1] U5 [THEN conjunct2, THEN conjunct1]
      U5 [THEN conjunct2, THEN conjunct2, THEN conjunct1]
      U5 [THEN conjunct2, THEN conjunct2, THEN conjunct2, THEN conjunct1]
      U5 [THEN conjunct2, THEN conjunct2, THEN conjunct2, THEN conjunct2, THEN conjunct1]
    unfolding q by (simp_all add: a)
  show ?thesis
    using m ok k first n q second by (intro conjI)
qed

text \<open>
  The claim as stated, for every run, fails when a save fails: with all cadences 1 and
  two steps, a save that fails at step index 0 ends the run, so no print report is made
  at index 1 and the learning rate is not decayed at index 0 or 1.
\<close>

theorem Train_schedule_counterexample:
  "model (stub_machine (Solver 1 1 1 1 (1 / 2)) (Some ())) \<noteq> None
   \<and> report_steps print_fmt
        (trace (Train (stub_env False) stub_Learn 2 1 (stub_machine (Solver 1 1 1 1 (1 / 2)) (Some ()))))
      = [1]
   \<and> cadence_or_final 1 2 = [1, 2]
   \<and> report_steps print_fmt
        (trace (Train (stub_env False) stub_Learn 2 1 (stub_machine (Solver 1 1 1 1 (1 / 2)) (Some ()))))
      \<noteq> cadence_or_final 1 2
   \<and> report_steps lr_fmt
        (trace (Train (stub_env False) stub_Learn 2 1 (stub_machine (Solver 1 1 1 1 (1 / 2)) (Some ()))))
      = []
   \<and> cadence_only 1 2 = [1, 2]
   \<and> report_steps lr_fmt
        (trace (Train (stub_env False) stub_Learn 2 1 (stub_machine (Solver 1 1 1 1 (1 / 2)) (Some ()))))
      \<noteq> cadence_only 1 2"
  by code_simp

text \<open>
  Claim C2 on a run aborted by a failed checkpoint save: \<open>Train\<close> returns false through
  the \<open>return false\<close> of line 146, before the two \<open>clear()\<close> calls of lines 160 and 161,
  and both lists still hold their entries.
\<close>

theorem Train_failed_save_keeps_snapshots:
  "ret (Train (stub_env False) stub_Learn 1 1 (stub_machine (Solver 1 1 1 1 (1 / 2)) (Some ())))
     = Returned False
   \<and> weight (solver (after (Train (stub_env False) stub_Learn 1 1
                               (stub_machine (Solver 1 1 1 1 (1 / 2)) (Some ()))))) = [Some 0]
   \<and> weight_prev (solver (after (Train (stub_env False) stub_Learn 1 1
                               (stub_machine (Solver 1 1 1 1 (1 / 2)) (Some ()))))) = [Some 1]"
  by code_simp

text \<open>
  A null model after a run that a failed save aborted: the stale snapshots of that run
  are still in both lists when the process terminates.
\<close>

theorem Train_null_model_witness:
  "model stale_machine = None
   \<and> weight (solver stale_machine) = [Some 0]
   \<and> weight_prev (solver stale_machine) = [Some 1]
   \<and> ret (Train (stub_env True) stub_Learn 10 1 stale_machine) = Terminated
   \<and> trace (Train (stub_env True) stub_Learn 10 1 stale_machine)
       = [Report kError ''Invalid model'' []]
   \<and> weight (solver (after (Train (stub_env True) stub_Learn 10 1 stale_machine))) = [Some 0]
   \<and> weight_prev (solver (after (Train (stub_env True) stub_Learn 10 1 stale_machine))) = [Some 1]"
proof -
  have m: "model stale_machine = None"
    by (simp add: stale_machine_def)
  have w: "weight (solver stale_machine) = [Some 0]" "weight_prev (solver stale_machine) = [Some 1]"
    by code_simp+
  from Train_null_model [OF m, of "stub_env True" stub_Learn 10 1] m w show ?thesis
    by simp
qed

text \<open>
  The claim as stated says that \<open>Train\<close> returns failure on a null model: the call does
  not return, its error report ends the process.
\<close>

theorem Train_null_model_counterexample:
  "model (stub_machine (Solver 1 1 1 1 (1 / 2)) None) = None
   \<and> ret (Train (stub_env True) stub_Learn 10 1 (stub_machine (Solver 1 1 1 1 (1 / 2)) None))
       = Terminated
   \<and> ret (Train (stub_env True) stub_Learn 10 1 (stub_machine (Solver 1 1 1 1 (1 / 2)) None))
       \<noteq> Returned False"
  by (simp add: Train_def Report_returns_def stub_machine_def)

text \<open>The snapshot setup on the stub model, whose one weight has shape \<open>[2]\<close>.\<close>

theorem Train_setup_snapshot_witness:
  "model (stub_machine (Solver 1 1 1 1 (1 / 2)) (Some ())) = Some ()
   \<and> Model_GetWeight (stub_env True) () [] = [Some 0]
   \<and> live (store (stub_machine (Solver 1 1 1 1 (1 / 2)) (Some ()))) (Some 0)
   \<and> weight (fst (Train_setup (stub_env True) () (Solver 1 1 1 1 (1 / 2)) stub_store)) = [Some 0]
   \<and> length (weight_prev (fst (Train_setup (stub_env True) () (Solver 1 1 1 1 (1 / 2)) stub_store))) = 1
   \<and> msize (deref (snd (Train_setup (stub_env True) () (Solver 1 1 1 1 (1 / 2)) stub_store))
               (weight_prev (fst (Train_setup (stub_env True) () (Solver 1 1 1 1 (1 / 2)) stub_store)) ! 0))
      = [2]
   \<and> data (deref (snd (Train_setup (stub_env True) () (Solver 1 1 1 1 (1 / 2)) stub_store))
               (weight_prev (fst (Train_setup (stub_env True) () (Solver 1 1 1 1 (1 / 2)) stub_store)) ! 0))
      = [0, 0]"
proof -
  let ?M = "stub_machine (Solver 1 1 1 1 (1 / 2)) (Some ())"
  have m: "model ?M = Some ()"
    by (simp add: stub_defs)
  have l: "\<forall>p \<in> set (Model_GetWeight (stub_env True) () []). live (store ?M) p"
    by (simp add: stub_defs live_def Size_def)
  have ws: "Model_GetWeight (stub_env True) () [] = [Some 0]"
    and M: "solver ?M = Solver 1 1 1 1 (1 / 2)" "store ?M = stub_store"
    by (simp_all add: stub_env_def stub_machine_def)
  have l': "\<forall>p \<in> set [Some (0::nat)]. live stub_store p"
    using l by (simp add: ws M)
  note T = Train_setup_snapshot [OF m, where E = "stub_env True", unfolded ws M]
  from T l' have a: "weight (fst (Train_setup (stub_env True) () (Solver 1 1 1 1 (1 / 2)) stub_store)) = [Some 0]"
    and b: "length (weight_prev (fst (Train_setup (stub_env True) () (Solver 1 1 1 1 (1 / 2)) stub_store)))
            = length (weight (fst (Train_setup (stub_env True) () (Solver 1 1 1 1 (1 / 2)) stub_store)))"
    and c: "\<forall>i < length [Some (0::nat)].
             live (snd (Train_setup (stub_env True) () (Solver 1 1 1 1 (1 / 2)) stub_store))
               (weight_prev (fst (Train_setup (stub_env True) () (Solver 1 1 1 1 (1 / 2)) stub_store)) ! i)
           \<and> msize (deref (snd (Train_setup (stub_env True) () (Solver 1 1 1 1 (1 / 2)) stub_store))
               (weight_prev (fst (Train_setup (stub_env True) () (Solver 1 1 1 1 (1 / 2)) stub_store)) ! i))
               = msize (deref stub_store ([Some 0] ! i))
           \<and> data (deref (snd (Train_setup (stub_env True) () (Solver 1 1 1 1 (1 / 2)) stub_store))
               (weight_prev (fst (Train_setup (stub_env True) () (Solver 1 1 1 1 (1 / 2)) stub_store)) ! i))
               = replicate (Size (deref stub_store ([Some 0] ! i))) 0
           \<and> deref (snd (Train_setup (stub_env True) () (Solver 1 1 1 1 (1 / 2)) stub_store)) ([Some 0] ! i)
               = deref stub_store ([Some 0] ! i)
           \<and> weight_prev (fst (Train_setup (stub_env True) () (Solver 1 1 1 1 (1 / 2)) stub_store)) ! i
               \<notin> set [Some 0]"
    by blast+
  have z: "(0::nat) < length [Some (0::nat)]" by simp
  from a b c [rule_format, OF z] l m ws show ?thesis
    by (simp add: stub_store_def deref_def Size_def numeral_2_eq_2)
qed

end
